theory Spec2Isabelle
  imports Complex_Main
begin

section \<open>Logcha: derived hours, weekly summaries, OJT progress and form validation\<close>

text \<open>
  The computations live in two places of the repository: the PostgreSQL schema
  \<^verbatim>\<open>supabase-migration.sql\<close> (generated columns and CHECK constraints of
  \<^verbatim>\<open>time_records\<close>, the functions \<^verbatim>\<open>calculate_weekly_summary\<close> and
  \<^verbatim>\<open>get_ojt_progress\<close>) and the Zod schemas of \<^verbatim>\<open>lib/validations.ts\<close>.

  SQL values of type \<^verbatim>\<open>numeric\<close>/\<^verbatim>\<open>DECIMAL\<close> are exact decimals; they are modelled as
  rationals. A nullable column is an \<open>option\<close>, \<open>None\<close> being NULL. An SQL error that aborts
  the statement is the left injection of a sum.
\<close>

subsection \<open>SQL numerics\<close>

datatype sql_error =
    check_violation string
  | numeric_value_out_of_range
  | division_by_zero

text \<open>
  \<^verbatim>\<open>ROUND(x, s)\<close> on \<^verbatim>\<open>numeric\<close>, which is also the rounding applied when a value is stored
  into a \<^verbatim>\<open>DECIMAL(p,s)\<close> column: to \<open>s\<close> decimal places, ties away from zero.
\<close>

definition round_numeric :: "rat \<Rightarrow> nat \<Rightarrow> rat" where
  "round_numeric x s =
     (if x < 0 then - (of_int (floor (- x * 10 ^ s + 1 / 2)) / 10 ^ s)
      else of_int (floor (x * 10 ^ s + 1 / 2)) / 10 ^ s)"

text \<open>
  Storing into \<^verbatim>\<open>DECIMAL(p,s)\<close>: round to scale \<open>s\<close>; a rounded value with more than
  \<open>p - s\<close> digits before the decimal point raises \<^verbatim>\<open>numeric_value_out_of_range\<close>.
\<close>

definition decimal :: "nat \<Rightarrow> nat \<Rightarrow> rat \<Rightarrow> sql_error + rat" where
  "decimal p s x =
     (let y = round_numeric x s
      in if 10 ^ (p - s) \<le> \<bar>y\<bar> then Inl numeric_value_out_of_range else Inr y)"

text \<open>\<^verbatim>\<open>COALESCE(x, d)\<close> with a non-null default.\<close>

definition coalesce :: "'a option \<Rightarrow> 'a \<Rightarrow> 'a" where
  "coalesce x d = (case x of None \<Rightarrow> d | Some v \<Rightarrow> v)"

text \<open>
  \<^verbatim>\<open>SUM\<close> over the values of a group: NULL inputs are skipped, and the sum of no
  non-null value is NULL.
\<close>

definition sql_sum :: "rat option list \<Rightarrow> rat option" where
  "sql_sum xs =
     (case List.map_filter (\<lambda>x. x) xs of [] \<Rightarrow> None | v # vs \<Rightarrow> Some (sum_list (v # vs)))"

subsection \<open>Table \<^verbatim>\<open>time_records\<close>: generated hour columns and CHECK constraints\<close>

text \<open>
  A \<^verbatim>\<open>TIME\<close> value is a number of microseconds since midnight, from 00:00:00 to
  24:00:00. The difference of two \<^verbatim>\<open>TIME\<close> values is an interval, here in microseconds too.
\<close>

type_synonym pg_time = int

definition valid_time :: "pg_time \<Rightarrow> bool" where
  "valid_time t \<longleftrightarrow> 0 \<le> t \<and> t \<le> 86400000000"

definition valid_time_opt :: "pg_time option \<Rightarrow> bool" where
  "valid_time_opt t = (case t of None \<Rightarrow> True | Some v \<Rightarrow> valid_time v)"

text \<open>Clock time \<open>hh:mm:ss\<close> as a \<^verbatim>\<open>TIME\<close> value.\<close>

definition hms :: "int \<Rightarrow> int \<Rightarrow> int \<Rightarrow> pg_time" where
  "hms h m s = ((h * 60 + m) * 60 + s) * 1000000"

datatype time_record_status = present | half_day_am | half_day_pm | absent

type_synonym uuid = nat
type_synonym pg_date = int

text \<open>The columns a statement supplies for a row of \<^verbatim>\<open>time_records\<close>.\<close>

record time_record_values =
  tr_trainee_id :: uuid
  tr_date :: pg_date
  am_time_in :: "pg_time option"
  am_time_out :: "pg_time option"
  pm_time_in :: "pg_time option"
  pm_time_out :: "pg_time option"
  tr_notes :: "string option"
  tr_status :: "time_record_status option"

text \<open>The stored row: the supplied columns and the three generated ones.\<close>

record time_record = time_record_values +
  am_hours :: rat
  pm_hours :: rat
  total_hours :: rat

text \<open>
  \<^verbatim>\<open>EXTRACT(EPOCH FROM interval)\<close>: the interval in seconds, a \<^verbatim>\<open>numeric\<close> with six
  decimals.
\<close>

definition extract_epoch :: "int \<Rightarrow> rat" where
  "extract_epoch d = of_int d / 1000000"

text \<open>
  A \<^verbatim>\<open>numeric\<close> is stored in digits of base 10000. The weight of its first non-zero
  digit and that digit, for the seconds of an interval of less than \<open>10\<^sup>8\<close> seconds;
  both are 0 for the value zero.
\<close>

definition epoch_head :: "int \<Rightarrow> int \<times> int" where
  "epoch_head d =
     (let a = \<bar>d\<bar>
      in if a = 0 then (0, 0)
         else if a < 100 then (- 2, a * 100)
         else if a < 1000000 then (- 1, a div 100)
         else if a < 10000000000 then (0, a div 1000000)
         else (1, a div 10000000000))"

text \<open>
  The scale of a \<^verbatim>\<open>numeric\<close> quotient, from the heads and the display scales of
  dividend and divisor: at least sixteen significant digits, counted in base 10000, and
  never fewer decimals than either operand has.
\<close>

definition select_div_scale :: "int \<times> int \<Rightarrow> nat \<Rightarrow> int \<times> int \<Rightarrow> nat \<Rightarrow> nat" where
  "select_div_scale head1 dscale1 head2 dscale2 =
     (let qweight = fst head1 - fst head2 - (if snd head1 \<le> snd head2 then 1 else 0);
          rscale = 16 - qweight * 4
      in nat (min 1000 (max 0 (max (int dscale2) (max (int dscale1) rscale)))))"

text \<open>
  \<^verbatim>\<open>EXTRACT(EPOCH FROM interval) / 3600.0\<close>: the quotient is rounded to the selected
  scale. The divisor \<^verbatim>\<open>3600.0\<close> has the single digit 3600 of weight 0 and one decimal.
\<close>

definition epoch_div_3600 :: "int \<Rightarrow> rat" where
  "epoch_div_3600 d =
     round_numeric (extract_epoch d / 3600) (select_div_scale (epoch_head d) 6 (0, 3600) 1)"

text \<open>
  The expression shared by the three generated columns:
  \<^verbatim>\<open>CASE WHEN t_in IS NOT NULL AND t_out IS NOT NULL
       THEN EXTRACT(EPOCH FROM (t_out - t_in)) / 3600.0 ELSE 0 END\<close>
\<close>

definition session_expr :: "pg_time option \<Rightarrow> pg_time option \<Rightarrow> rat" where
  "session_expr t_in t_out =
     (case t_in of
        None \<Rightarrow> 0
      | Some i \<Rightarrow> (case t_out of None \<Rightarrow> 0 | Some out \<Rightarrow> epoch_div_3600 (out - i)))"

definition am_hours_generated :: "'a time_record_values_scheme \<Rightarrow> sql_error + rat" where
  "am_hours_generated r = decimal 4 2 (session_expr (am_time_in r) (am_time_out r))"

definition pm_hours_generated :: "'a time_record_values_scheme \<Rightarrow> sql_error + rat" where
  "pm_hours_generated r = decimal 4 2 (session_expr (pm_time_in r) (pm_time_out r))"

definition total_hours_generated :: "'a time_record_values_scheme \<Rightarrow> sql_error + rat" where
  "total_hours_generated r =
     decimal 4 2 (session_expr (am_time_in r) (am_time_out r)
                  + session_expr (pm_time_in r) (pm_time_out r))"

text \<open>
  \<^verbatim>\<open>CHECK (t_out IS NULL OR t_in IS NULL OR t_out > t_in)\<close>: the constraint is violated
  only when the condition is false, so a NULL endpoint satisfies it.
\<close>

definition chk_times :: "pg_time option \<Rightarrow> pg_time option \<Rightarrow> bool" where
  "chk_times t_in t_out =
     (case t_out of
        None \<Rightarrow> True
      | Some out \<Rightarrow> (case t_in of None \<Rightarrow> True | Some i \<Rightarrow> out > i))"

definition chk_am_times :: "'a time_record_values_scheme \<Rightarrow> bool" where
  "chk_am_times r = chk_times (am_time_in r) (am_time_out r)"

definition chk_pm_times :: "'a time_record_values_scheme \<Rightarrow> bool" where
  "chk_pm_times r = chk_times (pm_time_in r) (pm_time_out r)"

text \<open>
  Writing a row (INSERT or UPDATE): the generated columns are computed first, then the
  CHECK constraints are tested, in the order of their names. The constraints that look at
  other rows (the foreign key, \<^verbatim>\<open>unique_trainee_date\<close>) play no part in the hours.
\<close>

definition write_time_record :: "time_record_values \<Rightarrow> sql_error + time_record" where
  "write_time_record r =
     (case am_hours_generated r of
        Inl e \<Rightarrow> Inl e
      | Inr a \<Rightarrow>
     (case pm_hours_generated r of
        Inl e \<Rightarrow> Inl e
      | Inr p \<Rightarrow>
     (case total_hours_generated r of
        Inl e \<Rightarrow> Inl e
      | Inr t \<Rightarrow>
         if \<not> chk_am_times r then Inl (check_violation ''chk_am_times'')
         else if \<not> chk_pm_times r then Inl (check_violation ''chk_pm_times'')
         else Inr (time_record_values.extend r
                     (time_record.fields a p t)))))"

text \<open>
  The specification's reading of the hour fields: the raw duration of a session in
  hours, and rounding half up to a number of decimal places.
\<close>

definition raw_hours :: "pg_time option \<Rightarrow> pg_time option \<Rightarrow> rat" where
  "raw_hours t_in t_out =
     (case (t_in, t_out) of
        (Some i, Some out) \<Rightarrow> of_int (out - i) / 3600000000
      | _ \<Rightarrow> 0)"

definition round_half_up :: "rat \<Rightarrow> nat \<Rightarrow> rat" where
  "round_half_up x s = of_int (floor (x * 10 ^ s + 1 / 2)) / 10 ^ s"

text \<open>A session is in valid order when, both endpoints being present, it ends after it starts.\<close>

definition valid_order :: "pg_time option \<Rightarrow> pg_time option \<Rightarrow> bool" where
  "valid_order t_in t_out =
     (case (t_in, t_out) of (Some i, Some out) \<Rightarrow> i < out | _ \<Rightarrow> True)"

definition valid_times :: "'a time_record_values_scheme \<Rightarrow> bool" where
  "valid_times r \<longleftrightarrow>
     valid_time_opt (am_time_in r) \<and> valid_time_opt (am_time_out r) \<and>
     valid_time_opt (pm_time_in r) \<and> valid_time_opt (pm_time_out r)"


subsection \<open>Tables \<^verbatim>\<open>users\<close> and \<^verbatim>\<open>trainees\<close>\<close>

datatype trainee_type = paid_intern | unpaid_intern | ojt

datatype trainee_status = active | completed | terminated

text \<open>
  Of each table, the columns that the two functions read. \<^verbatim>\<open>trainee_type\<close> and
  \<^verbatim>\<open>max_weekly_hours\<close> are NOT NULL; \<^verbatim>\<open>hourly_rate\<close>,
  \<^verbatim>\<open>total_required_hours\<close> and \<^verbatim>\<open>status\<close> are nullable.
\<close>

record user =
  u_id :: uuid
  u_first_name :: string
  u_last_name :: string

record trainee =
  t_id :: uuid
  t_user_id :: uuid
  t_trainee_type :: trainee_type
  t_hourly_rate :: "rat option"
  t_max_weekly_hours :: int
  t_total_required_hours :: "int option"
  t_status :: "trainee_status option"

record database =
  users :: "user list"
  trainees :: "trainee list"
  time_records :: "time_record list"

subsection \<open>Function \<^verbatim>\<open>calculate_weekly_summary\<close>\<close>

text \<open>
  The result columns are declared \<^verbatim>\<open>DECIMAL(6,2)\<close> and \<^verbatim>\<open>DECIMAL(10,2)\<close>, but
  CREATE FUNCTION discards type modifiers: the columns are plain \<^verbatim>\<open>numeric\<close>, and the
  values are returned as computed, neither rounded nor range-checked.
\<close>

record weekly_summary =
  total_hours_worked :: rat
  billable_hours :: rat
  gross_pay :: "rat option"
  days_present :: int

text \<open>\<^verbatim>\<open>LEAST\<close> of two non-null values.\<close>

definition least :: "rat \<Rightarrow> rat \<Rightarrow> rat" where
  "least a b = (if a \<le> b then a else b)"

text \<open>
  The rows of \<^verbatim>\<open>time_records\<close> selected by the WHERE clause:
  \<^verbatim>\<open>tr.trainee_id = p_trainee_id AND tr.date BETWEEN p_week_start AND p_week_start + 6 days\<close>.
\<close>

definition week_records :: "database \<Rightarrow> uuid \<Rightarrow> pg_date \<Rightarrow> time_record list" where
  "week_records db p_trainee_id p_week_start =
     filter (\<lambda>tr. tr_trainee_id tr = p_trainee_id
                 \<and> p_week_start \<le> tr_date tr \<and> tr_date tr \<le> p_week_start + 6)
            (time_records db)"

text \<open>
  \<^verbatim>\<open>SELECT * INTO trainee_record FROM trainees WHERE id = p_trainee_id\<close> takes the first
  matching row; with no match every field of \<^verbatim>\<open>trainee_record\<close> is NULL, so both
  CASE expressions take their ELSE branch.
\<close>

definition calculate_weekly_summary :: "database \<Rightarrow> uuid \<Rightarrow> pg_date \<Rightarrow> weekly_summary" where
  "calculate_weekly_summary db p_trainee_id p_week_start =
     (let trainee_record = find (\<lambda>t. t_id t = p_trainee_id) (trainees db);
          rows = week_records db p_trainee_id p_week_start;
          total = coalesce (sql_sum (map (\<lambda>tr. Some (total_hours tr)) rows)) 0
      in \<lparr> total_hours_worked = total,
           billable_hours =
             (case trainee_record of
                None \<Rightarrow> total
              | Some t \<Rightarrow>
                  if t_trainee_type t = paid_intern \<or> t_trainee_type t = unpaid_intern
                  then least total (of_int (t_max_weekly_hours t))
                  else total),
           gross_pay =
             (case trainee_record of
                None \<Rightarrow> Some 0
              | Some t \<Rightarrow>
                  if t_trainee_type t = paid_intern
                  then (case t_hourly_rate t of
                          None \<Rightarrow> None
                        | Some rate \<Rightarrow> Some (least total (of_int (t_max_weekly_hours t)) * rate))
                  else Some 0),
           days_present =
             int (length (filter (\<lambda>tr. tr_status tr = Some present
                                       \<or> tr_status tr = Some half_day_am
                                       \<or> tr_status tr = Some half_day_pm) rows)) \<rparr>)"

subsection \<open>Function \<^verbatim>\<open>get_ojt_progress\<close>\<close>

record ojt_progress =
  trainee_id :: uuid
  first_name :: string
  last_name :: string
  total_required_hours :: "int option"
  hours_rendered :: rat
  remaining_hours :: "rat option"
  completion_percentage :: "rat option"

text \<open>
  \<^verbatim>\<open>FROM trainees t JOIN users u ON t.user_id = u.id
     LEFT JOIN time_records tr ON t.id = tr.trainee_id\<close>:
  a trainee without time records keeps one row, whose \<^verbatim>\<open>tr\<close> columns are NULL.
\<close>

type_synonym ojt_joined = "trainee \<times> user \<times> time_record option"

definition left_join_time_records :: "database \<Rightarrow> trainee \<Rightarrow> user \<Rightarrow> ojt_joined list" where
  "left_join_time_records db t u =
     (let matches = filter (\<lambda>tr. t_id t = tr_trainee_id tr) (time_records db)
      in if matches = [] then [(t, u, None)] else map (\<lambda>tr. (t, u, Some tr)) matches)"

definition ojt_from :: "database \<Rightarrow> ojt_joined list" where
  "ojt_from db =
     concat (map (\<lambda>t. concat (map (left_join_time_records db t)
                                  (filter (\<lambda>u. t_user_id t = u_id u) (users db))))
                 (trainees db))"

text \<open>
  \<^verbatim>\<open>WHERE t.trainee_type = 'ojt' AND t.status = 'active'
       AND (p_trainee_id IS NULL OR t.id = p_trainee_id)\<close>
\<close>

definition ojt_where :: "uuid option \<Rightarrow> ojt_joined \<Rightarrow> bool" where
  "ojt_where p_trainee_id row =
     (case row of (t, u, tr) \<Rightarrow>
        t_trainee_type t = ojt \<and> t_status t = Some active
        \<and> (case p_trainee_id of None \<Rightarrow> True | Some p \<Rightarrow> t_id t = p))"

text \<open>\<^verbatim>\<open>GROUP BY t.id, u.first_name, u.last_name, t.total_required_hours\<close>\<close>

type_synonym ojt_key = "uuid \<times> string \<times> string \<times> int option"

definition ojt_group_key :: "ojt_joined \<Rightarrow> ojt_key" where
  "ojt_group_key row =
     (case row of (t, u, tr) \<Rightarrow> (t_id t, u_first_name u, u_last_name u, t_total_required_hours t))"

definition group_by :: "('r \<Rightarrow> 'k) \<Rightarrow> 'r list \<Rightarrow> ('k \<times> 'r list) list" where
  "group_by key rows =
     map (\<lambda>k. (k, filter (\<lambda>r. key r = k) rows)) (remdups (map key rows))"

text \<open>
  \<^verbatim>\<open>numeric / integer\<close>: NULL when the divisor is NULL, the error
  \<^verbatim>\<open>division_by_zero\<close> when it is zero. PostgreSQL carries the quotient to sixteen
  significant digits or more. The only use of the quotient is a percentage rounded to two
  decimals; with a 32-bit divisor and hours in hundredths that many digits decide the
  rounding, and the model takes the exact quotient.
\<close>

definition numeric_div :: "rat \<Rightarrow> int option \<Rightarrow> sql_error + rat option" where
  "numeric_div x d =
     (case d of
        None \<Rightarrow> Inr None
      | Some n \<Rightarrow> if n = 0 then Inl division_by_zero else Inr (Some (x / of_int n)))"

text \<open>The select list, evaluated on one group.\<close>

definition ojt_select :: "ojt_key \<times> ojt_joined list \<Rightarrow> sql_error + ojt_progress" where
  "ojt_select g =
     (case g of ((tid, fname, lname, required), rows) \<Rightarrow>
        (let rendered =
               coalesce (sql_sum (map (\<lambda>(t, u, tr). map_option total_hours tr) rows)) 0
         in case numeric_div rendered required of
              Inl e \<Rightarrow> Inl e
            | Inr ratio \<Rightarrow>
                Inr \<lparr> trainee_id = tid, first_name = fname, last_name = lname,
                      total_required_hours = required,
                      hours_rendered = rendered,
                      remaining_hours = map_option (\<lambda>n. of_int n - rendered) required,
                      completion_percentage =
                        map_option (\<lambda>q. round_numeric (q * 100) 2) ratio \<rparr>))"

text \<open>An error in any row aborts the whole query.\<close>

fun all_rows :: "(sql_error + 'a) list \<Rightarrow> sql_error + 'a list" where
  "all_rows [] = Inr []"
| "all_rows (Inl e # rs) = Inl e"
| "all_rows (Inr x # rs) = (case all_rows rs of Inl e \<Rightarrow> Inl e | Inr xs \<Rightarrow> Inr (x # xs))"

definition get_ojt_progress :: "database \<Rightarrow> uuid option \<Rightarrow> sql_error + ojt_progress list" where
  "get_ojt_progress db p_trainee_id =
     all_rows (map ojt_select
                 (group_by ojt_group_key (filter (ojt_where p_trainee_id) (ojt_from db))))"


text \<open>
  The specification's \<^verbatim>\<open>hours_rendered\<close>: the sum of \<^verbatim>\<open>total_hours\<close> over all the
  records of a trainee.
\<close>

definition rendered_hours :: "database \<Rightarrow> uuid \<Rightarrow> rat" where
  "rendered_hours db tid =
     sum_list (map total_hours (filter (\<lambda>tr. tid = tr_trainee_id tr) (time_records db)))"

subsection \<open>Zod schemas of \<^verbatim>\<open>lib/validations.ts\<close>\<close>

text \<open>
  The schemas receive form data whose date and time fields are strings. The model takes
  them parsed: a date string \<^verbatim>\<open>YYYY-MM-DD\<close> is the number of its day, counted from
  1970-01-01, and a time string \<^verbatim>\<open>HH:MM\<close> is the number of its minute, counted from
  midnight. An optional field that is \<^verbatim>\<open>undefined\<close> or the empty string (both falsy
  in JavaScript) is \<open>None\<close>. A JavaScript number is a rational.

  A \<^verbatim>\<open>Date\<close> is its time value, the milliseconds since 1970-01-01T00:00Z. The runtime
  supplies the current instant and the local time zone, taken here as a fixed offset.
\<close>

type_synonym iso_date = int
type_synonym hhmm = nat

text \<open>The day number of a calendar date of the proleptic Gregorian calendar.\<close>

definition ymd :: "int \<Rightarrow> int \<Rightarrow> int \<Rightarrow> iso_date" where
  "ymd y m d =
     (let y' = (if m \<le> 2 then y - 1 else y);
          era = y' div 400;
          yoe = y' - era * 400;
          doy = (153 * (if 2 < m then m - 3 else m + 9) + 2) div 5 + d - 1;
          doe = yoe * 365 + yoe div 4 - yoe div 100 + doy
      in era * 146097 + doe - 719468)"

definition hm :: "nat \<Rightarrow> nat \<Rightarrow> hhmm" where
  "hm h m = h * 60 + m"

record js_clock =
  now :: int
  tz_offset :: int

text \<open>
  \<^verbatim>\<open>new Date('YYYY-MM-DD')\<close>: a date-only string is read as UTC midnight.
  \<^verbatim>\<open>new Date('YYYY-MM-DDTHH:MM:00')\<close>: a date-time string without offset is read as
  local time. \<open>tz_offset\<close> is in minutes, positive east of Greenwich.
\<close>

definition date_utc :: "iso_date \<Rightarrow> int" where
  "date_utc d = d * 86400000"

definition date_local :: "js_clock \<Rightarrow> iso_date \<Rightarrow> hhmm \<Rightarrow> int" where
  "date_local c d t = (d * 1440 + int t - tz_offset c) * 60000"

text \<open>The calendar date of the current instant in the local time zone.\<close>

definition local_day :: "js_clock \<Rightarrow> iso_date" where
  "local_day c = (now c + tz_offset c * 60000) div 86400000"

text \<open>\<^verbatim>\<open>const today = new Date(); today.setHours(0, 0, 0, 0)\<close>: local midnight of today.\<close>

definition start_of_today :: "js_clock \<Rightarrow> int" where
  "start_of_today c = date_local c (local_day c) 0"

text \<open>
  An issue: \<open>too_small\<close> of Zod's own \<^verbatim>\<open>min\<close> check with the path of the field, or a
  custom issue added by a refinement with its path and message.
\<close>

datatype zod_issue = too_small string | custom string string

record time_record_form =
  f_trainee_id :: string
  f_date :: iso_date
  f_am_time_in :: "hhmm option"
  f_am_time_out :: "hhmm option"
  f_pm_time_in :: "hhmm option"
  f_pm_time_out :: "hhmm option"
  f_notes :: "string option"
  f_status :: time_record_status

text \<open>
  \<^verbatim>\<open>new Date(`2000-01-01T${t}:00`)\<close>, the instant at which a session time is compared.
\<close>

definition session_date :: "js_clock \<Rightarrow> hhmm \<Rightarrow> int" where
  "session_date c t = date_local c (ymd 2000 1 1) t"

text \<open>The callback of \<^verbatim>\<open>timeRecordSchema\<close>'s \<^verbatim>\<open>superRefine\<close>: five checks in sequence.\<close>

definition timeRecordSchema_superRefine :: "js_clock \<Rightarrow> time_record_form \<Rightarrow> zod_issue list" where
  "timeRecordSchema_superRefine c data =
     (case f_am_time_in data of
        None \<Rightarrow> []
      | Some am_in \<Rightarrow>
          (case f_am_time_out data of
             None \<Rightarrow> []
           | Some am_out \<Rightarrow>
               if session_date c am_out \<le> session_date c am_in
               then [custom ''am_time_out'' ''AM time out must be after AM time in'']
               else []))
     @ (case f_pm_time_in data of
          None \<Rightarrow> []
        | Some pm_in \<Rightarrow>
            (case f_pm_time_out data of
               None \<Rightarrow> []
             | Some pm_out \<Rightarrow>
                 if session_date c pm_out \<le> session_date c pm_in
                 then [custom ''pm_time_out'' ''PM time out must be after PM time in'']
                 else []))
     @ (case f_am_time_out data of
          None \<Rightarrow> []
        | Some am_out \<Rightarrow>
            (case f_pm_time_in data of
               None \<Rightarrow> []
             | Some pm_in \<Rightarrow>
                 if session_date c pm_in \<le> session_date c am_out
                 then [custom ''pm_time_in'' ''PM time in should be after AM time out'']
                 else []))
     @ (if f_status data = present
           \<and> (f_am_time_in data = None \<or> f_am_time_out data = None)
           \<and> (f_pm_time_in data = None \<or> f_pm_time_out data = None)
        then [custom ''status''
                ''At least one complete session (AM or PM) is required for present status'']
        else [])
     @ (if start_of_today c < date_utc (f_date data)
        then [custom ''date'' ''Cannot enter future dates'']
        else [])"

text \<open>
  The schema: the field checks of the object (\<^verbatim>\<open>trainee_id\<close> not empty; a date string
  is never empty), then the refinement. A failed \<^verbatim>\<open>min\<close> check does not stop the
  refinement from running.
\<close>

definition timeRecordSchema :: "js_clock \<Rightarrow> time_record_form \<Rightarrow> zod_issue list" where
  "timeRecordSchema c data =
     (if length (f_trainee_id data) < 1 then [too_small ''trainee_id''] else [])
     @ timeRecordSchema_superRefine c data"

text \<open>
  The five rules of the specification's Record Validator, on the parsed record and the
  business date of today, and the rule that each custom issue reports (by its path).
\<close>

datatype rule =
    InvalidSessionOrder_am
  | InvalidSessionOrder_pm
  | SessionOverlap
  | IncompleteSessionForPresent
  | FutureDateNotAllowed

definition complete_session :: "hhmm option \<Rightarrow> hhmm option \<Rightarrow> bool" where
  "complete_session t_in t_out \<longleftrightarrow> t_in \<noteq> None \<and> t_out \<noteq> None"

definition after :: "hhmm option \<Rightarrow> hhmm option \<Rightarrow> bool" where
  "after later earlier =
     (case (later, earlier) of (Some l, Some e) \<Rightarrow> e < l | _ \<Rightarrow> True)"

definition violated_rules :: "iso_date \<Rightarrow> time_record_form \<Rightarrow> rule set" where
  "violated_rules today data =
     (if after (f_am_time_out data) (f_am_time_in data) then {} else {InvalidSessionOrder_am})
     \<union> (if after (f_pm_time_out data) (f_pm_time_in data) then {} else {InvalidSessionOrder_pm})
     \<union> (if after (f_pm_time_in data) (f_am_time_out data) then {} else {SessionOverlap})
     \<union> (if f_status data = present
             \<and> \<not> complete_session (f_am_time_in data) (f_am_time_out data)
             \<and> \<not> complete_session (f_pm_time_in data) (f_pm_time_out data)
          then {IncompleteSessionForPresent} else {})
     \<union> (if f_date data \<le> today then {} else {FutureDateNotAllowed})"

fun rule_of_issue :: "zod_issue \<Rightarrow> rule option" where
  "rule_of_issue (too_small path) = None"
| "rule_of_issue (custom path message) =
     (if path = ''am_time_out'' then Some InvalidSessionOrder_am
      else if path = ''pm_time_out'' then Some InvalidSessionOrder_pm
      else if path = ''pm_time_in'' then Some SessionOverlap
      else if path = ''status'' then Some IncompleteSessionForPresent
      else if path = ''date'' then Some FutureDateNotAllowed
      else None)"

text \<open>
  The specification's \<^verbatim>\<open>validateTimeRecord\<close>: the set of the rules reported by the
  issues of the refinement.
\<close>

definition validateTimeRecord :: "js_clock \<Rightarrow> time_record_form \<Rightarrow> rule set" where
  "validateTimeRecord c data =
     set (List.map_filter rule_of_issue (timeRecordSchema_superRefine c data))"

text \<open>
  \<^verbatim>\<open>traineeSchema\<close>. The optional strings without a check (\<^verbatim>\<open>employee_id\<close>,
  \<^verbatim>\<open>school_name\<close>, \<^verbatim>\<open>course\<close>, \<^verbatim>\<open>year_level\<close>) are left out, and so is the
  check that \<^verbatim>\<open>start_date\<close> is not empty, which a date string always passes.
\<close>

record trainee_form =
  tf_user_id :: string
  tf_company_id :: string
  tf_trainee_type :: trainee_type
  tf_hourly_rate :: "rat option"
  tf_max_weekly_hours :: rat
  tf_total_required_hours :: "rat option"
  tf_start_date :: iso_date
  tf_end_date :: "iso_date option"

text \<open>\<^verbatim>\<open>!x\<close> on an optional number: true for \<^verbatim>\<open>undefined\<close> and for zero.\<close>

definition js_not :: "rat option \<Rightarrow> bool" where
  "js_not x = (case x of None \<Rightarrow> True | Some v \<Rightarrow> v = 0)"

definition traineeSchema_fields :: "trainee_form \<Rightarrow> zod_issue list" where
  "traineeSchema_fields data =
     (if length (tf_user_id data) < 1 then [too_small ''user_id''] else [])
     @ (if length (tf_company_id data) < 1 then [too_small ''company_id''] else [])
     @ (case tf_hourly_rate data of
          None \<Rightarrow> []
        | Some v \<Rightarrow> if v < 0 then [too_small ''hourly_rate''] else [])
     @ (if tf_max_weekly_hours data < 1 then [too_small ''max_weekly_hours''] else [])
     @ (case tf_total_required_hours data of
          None \<Rightarrow> []
        | Some v \<Rightarrow> if v < 1 then [too_small ''total_required_hours''] else [])"

definition traineeSchema_superRefine :: "trainee_form \<Rightarrow> zod_issue list" where
  "traineeSchema_superRefine data =
     (if tf_trainee_type data = paid_intern \<and> js_not (tf_hourly_rate data)
      then [custom ''hourly_rate'' ''Hourly rate is required for paid interns'']
      else [])
     @ (if tf_trainee_type data = ojt \<and> js_not (tf_total_required_hours data)
        then [custom ''total_required_hours''
                ''Total required hours is required for OJT students'']
        else [])
     @ (case tf_end_date data of
          None \<Rightarrow> []
        | Some e \<Rightarrow>
            if date_utc e \<le> date_utc (tf_start_date data)
            then [custom ''end_date'' ''End date must be after start date'']
            else [])"

definition traineeSchema :: "trainee_form \<Rightarrow> zod_issue list" where
  "traineeSchema data = traineeSchema_fields data @ traineeSchema_superRefine data"

text \<open>A form is accepted when parsing reports no issue.\<close>

definition accepted :: "trainee_form \<Rightarrow> bool" where
  "accepted data \<longleftrightarrow> traineeSchema data = []"

subsection \<open>Example rows of \<^verbatim>\<open>time_records\<close>\<close>

text \<open>AM 08:00 to 12:00 and PM 13:00 to 17:00.\<close>

definition full_day :: time_record_values where
  "full_day = \<lparr>tr_trainee_id = 101, tr_date = ymd 2024 1 15,
     am_time_in = Some (hms 8 0 0), am_time_out = Some (hms 12 0 0),
     pm_time_in = Some (hms 13 0 0), pm_time_out = Some (hms 17 0 0),
     tr_notes = None, tr_status = Some present\<rparr>"

text \<open>AM 08:00 to 12:00 only.\<close>

definition am_only :: time_record_values where
  "am_only = \<lparr>tr_trainee_id = 101, tr_date = ymd 2024 1 15,
     am_time_in = Some (hms 8 0 0), am_time_out = Some (hms 12 0 0),
     pm_time_in = None, pm_time_out = None,
     tr_notes = None, tr_status = Some present\<rparr>"

text \<open>
  Two sessions of four hours and ten minutes each: 08:00 to 12:10 and 13:00 to 17:10.
  The stored row has 4.17 hours for each session and 8.33 hours in total.
\<close>

definition two_long_sessions :: time_record_values where
  "two_long_sessions = \<lparr>tr_trainee_id = 101, tr_date = ymd 2024 1 15,
     am_time_in = Some (hms 8 0 0), am_time_out = Some (hms 12 10 0),
     pm_time_in = Some (hms 13 0 0), pm_time_out = Some (hms 17 10 0),
     tr_notes = None, tr_status = Some present\<rparr>"

definition two_long_sessions_row :: time_record where
  "two_long_sessions_row =
     time_record_values.extend two_long_sessions
       (time_record.fields (417 / 100) (417 / 100) (833 / 100))"

text \<open>
  Ten minutes in the morning and 1 h 2 min 18 s in the afternoon: 1.205 hours in all.
\<close>

definition tie_day :: time_record_values where
  "tie_day = \<lparr>tr_trainee_id = 101, tr_date = ymd 2024 1 15,
     am_time_in = Some (hms 8 0 0), am_time_out = Some (hms 8 10 0),
     pm_time_in = Some (hms 13 0 0), pm_time_out = Some (hms 14 2 18),
     tr_notes = None, tr_status = Some present\<rparr>"

text \<open>AM session entered backwards: in at 08:00, out at 07:00.\<close>

definition reversed_am :: time_record_values where
  "reversed_am = \<lparr>tr_trainee_id = 101, tr_date = ymd 2024 1 15,
     am_time_in = Some (hms 8 0 0), am_time_out = Some (hms 7 0 0),
     pm_time_in = None, pm_time_out = None,
     tr_notes = None, tr_status = Some present\<rparr>"

subsection \<open>Example databases\<close>

text \<open>
  A paid intern with a ceiling of 16 hours a week at 62.50 an hour, who worked four
  hours on each of the five days from Monday 2024-01-15.
\<close>

definition juan :: trainee where
  "juan = \<lparr>t_id = 101, t_user_id = 11, t_trainee_type = paid_intern,
     t_hourly_rate = Some (125 / 2), t_max_weekly_hours = 16,
     t_total_required_hours = None, t_status = Some active\<rparr>"

definition morning_of :: "uuid \<Rightarrow> pg_date \<Rightarrow> time_record" where
  "morning_of tid d = \<lparr>tr_trainee_id = tid, tr_date = d,
     am_time_in = Some (hms 8 0 0), am_time_out = Some (hms 12 0 0),
     pm_time_in = None, pm_time_out = None,
     tr_notes = None, tr_status = Some half_day_am,
     am_hours = 4, pm_hours = 0, total_hours = 4\<rparr>"

definition juan_week :: database where
  "juan_week = \<lparr>users = [\<lparr>u_id = 11, u_first_name = ''Juan'', u_last_name = ''Cruz''\<rparr>],
     trainees = [juan],
     time_records = map (morning_of 101) [19737, 19738, 19739, 19740, 19741]\<rparr>"

text \<open>
  An active OJT trainee who must render 500 hours and has two full days on record, next
  to the paid intern and his week.
\<close>

definition maria :: trainee where
  "maria = \<lparr>t_id = 102, t_user_id = 12, t_trainee_type = ojt,
     t_hourly_rate = None, t_max_weekly_hours = 40,
     t_total_required_hours = Some 500, t_status = Some active\<rparr>"

definition maria_user :: user where
  "maria_user = \<lparr>u_id = 12, u_first_name = ''Maria'', u_last_name = ''Santos''\<rparr>"

definition full_day_of :: "uuid \<Rightarrow> pg_date \<Rightarrow> time_record" where
  "full_day_of tid d = \<lparr>tr_trainee_id = tid, tr_date = d,
     am_time_in = Some (hms 8 0 0), am_time_out = Some (hms 12 0 0),
     pm_time_in = Some (hms 13 0 0), pm_time_out = Some (hms 17 0 0),
     tr_notes = None, tr_status = Some present,
     am_hours = 4, pm_hours = 4, total_hours = 8\<rparr>"

definition ojt_db :: database where
  "ojt_db = \<lparr>users = [\<lparr>u_id = 11, u_first_name = ''Juan'', u_last_name = ''Cruz''\<rparr>, maria_user],
     trainees = [juan, maria],
     time_records = [morning_of 101 19737, full_day_of 102 19737, full_day_of 102 19738]\<rparr>"

text \<open>
  The same trainee with a corrupt configuration: no required hours, zero required
  hours, and a negative number of required hours.
\<close>

definition corrupt_db :: "int option \<Rightarrow> database" where
  "corrupt_db required = \<lparr>users = [maria_user],
     trainees = [maria\<lparr>t_total_required_hours := required\<rparr>],
     time_records = [full_day_of 102 19737, full_day_of 102 19738]\<rparr>"

definition unconfigured_progress :: ojt_progress where
  "unconfigured_progress = \<lparr>trainee_id = 102, first_name = ''Maria'', last_name = ''Santos'',
     total_required_hours = None, hours_rendered = 16,
     remaining_hours = None, completion_percentage = None\<rparr>"

subsection \<open>Example form data\<close>

text \<open>
  Manila, UTC+8, at 10:00 in the morning of 2024-01-15, and a record of that same day
  with a complete morning session.
\<close>

definition manila_morning :: js_clock where
  "manila_morning = \<lparr>now = (ymd 2024 1 15 * 1440 + 10 * 60 - 480) * 60000, tz_offset = 480\<rparr>"

definition todays_record :: time_record_form where
  "todays_record = \<lparr>f_trainee_id = ''trainee-101'', f_date = ymd 2024 1 15,
     f_am_time_in = Some (hm 8 0), f_am_time_out = Some (hm 12 0),
     f_pm_time_in = None, f_pm_time_out = None,
     f_notes = None, f_status = present\<rparr>"

text \<open>A paid intern whose hourly rate is entered as 0, every other field being valid.\<close>

definition zero_rate_intern :: trainee_form where
  "zero_rate_intern = \<lparr>tf_user_id = ''user-11'', tf_company_id = ''company-1'',
     tf_trainee_type = paid_intern, tf_hourly_rate = Some 0,
     tf_max_weekly_hours = 16, tf_total_required_hours = None,
     tf_start_date = ymd 2024 1 15, tf_end_date = None\<rparr>"

section \<open>Properties\<close>

subsection \<open>Derived hours of a time record\<close>

lemma floor_rat_numeral_div [simp]:
  "floor (numeral a / numeral b :: rat) = numeral a div numeral b"
  using floor_divide_of_int_eq [of "numeral a" "numeral b", where ?'a = rat] by simp

lemma floor_rat_half [simp]: "floor (1 / 2 :: rat) = 0"
  using floor_divide_of_int_eq [of 1 2, where ?'a = rat] by simp

lemma round_numeric_nonneg: "0 \<le> x \<Longrightarrow> round_numeric x s = round_half_up x s"
proof -
  assume "0 \<le> x"
  then have "\<not> x < 0" by simp
  then show ?thesis by (simp only: round_numeric_def round_half_up_def if_False)
qed

lemma round_numeric_neg: "x < 0 \<Longrightarrow> round_numeric x s = - round_half_up (- x) s"
  by (simp add: round_numeric_def round_half_up_def)

lemma round_half_up_nonneg: "0 \<le> x \<Longrightarrow> 0 \<le> round_half_up x s"
  by (simp add: round_half_up_def)

lemma round_half_up_err: "\<bar>round_half_up x s - x\<bar> \<le> 1 / (2 * 10 ^ s)"
proof -
  define P :: rat where "P = 10 ^ s"
  define m where "m = floor (x * P + 1 / 2)"
  have P: "0 < P" by (simp add: P_def)
  have "of_int m \<le> x * P + 1 / 2" and "x * P + 1 / 2 < of_int m + 1"
    using floor_correct [of "x * P + 1 / 2"] by (simp_all add: m_def)
  then have a: "\<bar>of_int m - x * P\<bar> \<le> 1 / 2" by linarith
  have "of_int m / P - x = (of_int m - x * P) / P"
    using P by (simp add: diff_divide_distrib)
  then have "\<bar>of_int m / P - x\<bar> = \<bar>of_int m - x * P\<bar> / P"
    using P by (simp only: abs_divide abs_of_pos)
  also have "\<dots> \<le> (1 / 2) / P"
    by (rule divide_right_mono [OF a]) (use P in simp)
  finally show ?thesis
    by (simp add: round_half_up_def m_def P_def)
qed

lemma round_numeric_err: "\<bar>round_numeric x s - x\<bar> \<le> 1 / (2 * 10 ^ s)"
proof (cases "x < 0")
  case True
  then show ?thesis
    using round_half_up_err [of "- x" s] by (simp add: round_numeric_neg)
next
  case False
  then show ?thesis
    using round_half_up_err [of x s] by (simp add: round_numeric_nonneg)
qed

lemma round_half_up_fixed:
  assumes "3 \<le> s"
  shows "round_half_up (of_int j / 200) s = of_int j / 200"
proof -
  obtain t where s: "s = 3 + t" using assms le_Suc_ex by blast
  have e: "(10 :: rat) ^ s = 1000 * 10 ^ t"
    by (simp add: s power_add)
  have g: "rat_of_int j / 200 * (1000 * 10 ^ t) = of_int (j * 5 * 10 ^ t)"
    by simp
  have f: "floor (rat_of_int j / 200 * (1000 * 10 ^ t) + 1 / 2) = j * 5 * 10 ^ t"
    unfolding g by linarith
  show ?thesis
    unfolding round_half_up_def e f by simp
qed

lemma scale_at_least_12: "12 \<le> select_div_scale (epoch_head d) 6 (0, 3600) 1"
  by (simp add: select_div_scale_def epoch_head_def Let_def)

lemma power_ten_12: "12 \<le> s \<Longrightarrow> (10 :: rat) ^ 12 \<le> 10 ^ s"
  by (rule power_increasing) simp_all

lemma epoch_div_close: "\<bar>epoch_div_3600 d - of_int d / 3600000000\<bar> \<le> 1 / (2 * 10 ^ 12)"
proof -
  let ?s = "select_div_scale (epoch_head d) 6 (0, 3600) 1"
  have x: "extract_epoch d / 3600 = of_int d / 3600000000"
    by (simp add: extract_epoch_def)
  have "\<bar>epoch_div_3600 d - of_int d / 3600000000\<bar> \<le> 1 / (2 * 10 ^ ?s)"
    unfolding epoch_div_3600_def x by (rule round_numeric_err)
  moreover have "1 / (2 * (10 :: rat) ^ ?s) \<le> 1 / (2 * 10 ^ 12)"
    using power_ten_12 [OF scale_at_least_12 [of d]] by (simp add: frac_le)
  ultimately show ?thesis by linarith
qed


lemma near_round:
  fixes D :: int and Q :: rat
  assumes "\<bar>Q - of_int D / 3600000000\<bar> \<le> 1 / 10 ^ 12"
  shows "round_half_up Q 2 = round_half_up (of_int D / 3600000000) 2
         \<or> round_half_up Q 2 = round_half_up (of_int D / 3600000000) 2 - 1 / 100"
    and "(\<And>k. of_int D / 3600000000 * 100 + 1 / 2 \<noteq> rat_of_int k) \<Longrightarrow>
           round_half_up Q 2 = round_half_up (of_int D / 3600000000) 2"
proof -
  define S :: rat where "S = of_int D / 3600000000"
  define n where "n = floor (S * 100 + 1 / 2)"
  define q where "q = floor (Q * 100 + 1 / 2)"
  have "\<bar>Q - S\<bar> \<le> 1 / 1000000000000" using assms by (simp add: S_def)
  then have "Q - S \<le> 1 / 1000000000000 \<and> - (Q - S) \<le> 1 / 1000000000000"
    by (simp only: abs_le_iff)
  then have close: "Q \<le> S + 1 / 1000000000000" "S - 1 / 1000000000000 \<le> Q"
    by linarith+
  have n1: "of_int n \<le> S * 100 + 1 / 2" and n2: "S * 100 + 1 / 2 < of_int n + 1"
    using floor_correct [of "S * 100 + 1 / 2"] by (simp_all add: n_def)
  have "rat_of_int D < of_int ((2 * n + 1) * 18000000)"
    using n2 by (simp add: S_def)
  then have "D < (2 * n + 1) * 18000000" by (simp only: of_int_less_iff)
  then have "D + 1 \<le> (2 * n + 1) * 18000000" by linarith
  then have "rat_of_int (D + 1) \<le> of_int ((2 * n + 1) * 18000000)"
    by (simp only: of_int_le_iff)
  then have "rat_of_int D + 1 \<le> (2 * of_int n + 1) * 18000000"
    by simp
  then have up: "S \<le> of_int n / 100 + 1 / 200 - 1 / 3600000000"
    unfolding S_def by (simp add: field_simps)
  have "Q * 100 + 1 / 2 < rat_of_int n + 1"
    using up close by linarith
  then have "Q * 100 + 1 / 2 < of_int (n + 1)" by simp
  then have "q < n + 1" by (simp only: q_def floor_less_iff)
  then have le: "q \<le> n" by simp
  have "rat_of_int n - 1 \<le> Q * 100 + 1 / 2"
    using n1 close by linarith
  then have "of_int (n - 1) \<le> Q * 100 + 1 / 2" by simp
  then have ge: "n - 1 \<le> q" by (simp only: q_def le_floor_iff)
  have r: "round_half_up Q 2 = of_int q / 100" "round_half_up S 2 = of_int n / 100"
    by (simp_all add: round_half_up_def q_def n_def)
  have "q = n \<or> q = n - 1" using le ge by linarith
  then have "round_half_up Q 2 = round_half_up S 2
         \<or> round_half_up Q 2 = round_half_up S 2 - 1 / 100"
    unfolding r by (auto simp: diff_divide_distrib)
  then show "round_half_up Q 2 = round_half_up (of_int D / 3600000000) 2
         \<or> round_half_up Q 2 = round_half_up (of_int D / 3600000000) 2 - 1 / 100"
    by (simp only: S_def)
  show "round_half_up Q 2 = round_half_up (of_int D / 3600000000) 2"
    if "\<And>k. of_int D / 3600000000 * 100 + 1 / 2 \<noteq> rat_of_int k"
  proof -
    have "S * 100 + 1 / 2 \<noteq> of_int n" unfolding S_def by (rule that)
    then have "of_int n < S * 100 + 1 / 2" using n1 by linarith
    then have "rat_of_int ((2 * n - 1) * 18000000) < of_int D"
      by (simp add: S_def)
    then have "(2 * n - 1) * 18000000 < D" by (simp only: of_int_less_iff)
    then have "(2 * n - 1) * 18000000 + 1 \<le> D" by linarith
    then have "rat_of_int ((2 * n - 1) * 18000000 + 1) \<le> of_int D"
      by (simp only: of_int_le_iff)
    then have "(2 * of_int n - 1) * 18000000 + 1 \<le> rat_of_int D"
      by simp
    then have "of_int n / 100 - 1 / 200 + 1 / 3600000000 \<le> S"
      unfolding S_def by (simp add: field_simps)
    then have "of_int n \<le> Q * 100 + 1 / 2"
      using close by linarith
    then have "n \<le> q" by (simp only: q_def le_floor_iff)
    then have "q = n" using le by linarith
    then show ?thesis by (simp add: r [unfolded S_def])
  qed
qed

lemma epoch_div_nonneg:
  assumes "0 \<le> d"
  shows "epoch_div_3600 d
           = round_half_up (of_int d / 3600000000) (select_div_scale (epoch_head d) 6 (0, 3600) 1)"
    and "0 \<le> epoch_div_3600 d"
proof -
  have x: "extract_epoch d / 3600 = of_int d / 3600000000"
    by (simp add: extract_epoch_def)
  have "0 \<le> rat_of_int d / 3600000000" using assms by simp
  then show "epoch_div_3600 d
           = round_half_up (of_int d / 3600000000) (select_div_scale (epoch_head d) 6 (0, 3600) 1)"
    unfolding epoch_div_3600_def x by (rule round_numeric_nonneg)
  then show "0 \<le> epoch_div_3600 d"
    using assms by (simp add: round_half_up_nonneg)
qed

lemma epoch_div_fixed:
  assumes "0 \<le> d" and "of_int d / 3600000000 = rat_of_int j / 200"
  shows "epoch_div_3600 d = of_int j / 200"
proof -
  have "3 \<le> select_div_scale (epoch_head d) 6 (0, 3600) 1"
    using scale_at_least_12 [of d] by linarith
  then show ?thesis
    unfolding epoch_div_nonneg(1) [OF assms(1)] assms(2) by (rule round_half_up_fixed)
qed

lemma epoch_div_round2:
  assumes "0 \<le> d"
  shows "round_half_up (epoch_div_3600 d) 2 = round_half_up (of_int d / 3600000000) 2"
proof (cases "\<exists>k. of_int d / 3600000000 * 100 + 1 / 2 = rat_of_int k")
  case True
  then obtain k where "of_int d / 3600000000 * 100 + 1 / 2 = rat_of_int k" ..
  then have "of_int d / 3600000000 = rat_of_int (2 * k - 1) / 200" by simp
  then have e: "epoch_div_3600 d = of_int d / 3600000000"
    using epoch_div_fixed [OF assms, of "2 * k - 1"] by simp
  show ?thesis unfolding e by (rule refl)
next
  case False
  have "\<bar>epoch_div_3600 d - of_int d / 3600000000\<bar> \<le> 1 / 10 ^ 12"
    using epoch_div_close [of d] by simp
  then show ?thesis
    by (rule near_round(2)) (use False in blast)
qed


lemma round_half_up_upper: "round_half_up x 2 \<le> x + 1 / 200"
proof -
  have "of_int (floor (x * 100 + 1 / 2)) \<le> x * 100 + 1 / 2" by (rule of_int_floor_le)
  then show ?thesis by (simp add: round_half_up_def field_simps)
qed

lemma round_half_up_lower: "x - 1 / 200 < round_half_up x 2"
proof -
  have "x * 100 + 1 / 2 < of_int (floor (x * 100 + 1 / 2)) + 1" using floor_correct [of "x * 100 + 1 / 2"] by simp
  then show ?thesis by (simp add: round_half_up_def field_simps)
qed

lemma round_numeric_abs: "\<bar>round_numeric x 2\<bar> \<le> \<bar>x\<bar> + 1 / 200"
proof (cases "x < 0")
  case True
  then have "round_numeric x 2 = - round_half_up (- x) 2"
    by (simp add: round_numeric_def round_half_up_def)
  moreover have "0 \<le> round_half_up (- x) 2" using True by (simp add: round_half_up_nonneg)
  moreover have "round_half_up (- x) 2 \<le> - x + 1 / 200" by (rule round_half_up_upper)
  ultimately show ?thesis using True by simp
next
  case False
  then have "round_numeric x 2 = round_half_up x 2" by (simp add: round_numeric_nonneg)
  moreover have "0 \<le> round_half_up x 2" using False by (simp add: round_half_up_nonneg)
  moreover have "round_half_up x 2 \<le> x + 1 / 200" by (rule round_half_up_upper)
  ultimately show ?thesis using False by simp
qed

lemma raw_hours_abs:
  "valid_time_opt i \<Longrightarrow> valid_time_opt out \<Longrightarrow> \<bar>raw_hours i out\<bar> \<le> 24"
  by (auto simp: raw_hours_def valid_time_opt_def valid_time_def abs_le_iff field_simps
      split: option.splits)
  
lemma raw_hours_nonneg: "valid_order i out \<Longrightarrow> 0 \<le> raw_hours i out"
  by (auto simp: raw_hours_def valid_order_def split: option.splits)

lemma chk_times_valid_order: "chk_times i out = valid_order i out"
  by (simp add: chk_times_def valid_order_def split: option.splits)

lemma round_half_up_hundredth: "round_half_up (of_int k / 100) 2 = of_int k / 100"
proof -
  have "floor (rat_of_int k + 1 / 2) = k" by linarith
  then show ?thesis by (simp add: round_half_up_def)
qed

lemma round_half_up_add_hundredth:
  "round_half_up (of_int k / 100 + x) 2 = of_int k / 100 + round_half_up x 2"
proof -
  have "floor (rat_of_int k + x * 100 + 1 / 2) = k + floor (x * 100 + 1 / 2)"
    using int_add_floor [of k "x * 100 + 1 / 2"] by (simp add: add.assoc)
  then show ?thesis
    by (simp add: round_half_up_def distrib_right add_divide_distrib)
qed

lemma round_half_up_sum_close:
  "\<bar>round_half_up (a + b) 2 - (round_half_up a 2 + round_half_up b 2)\<bar> \<le> 1 / 100"
proof -
  define k where "k = floor ((a + b) * 100 + 1 / 2) - floor (a * 100 + 1 / 2) - floor (b * 100 + 1 / 2)"
  have eq: "round_half_up (a + b) 2 - (round_half_up a 2 + round_half_up b 2) = of_int k / 100"
    by (simp add: k_def round_half_up_def field_simps)
  have "of_int k / 100 < (3 / 200 :: rat)"
    using round_half_up_upper [of "a + b"] round_half_up_lower [of a] round_half_up_lower [of b]
    unfolding eq [symmetric] by linarith
  then have "rat_of_int k < of_int 2" by simp
  then have u: "k \<le> 1" by (simp only: of_int_less_iff)
  have "- (3 / 200 :: rat) < of_int k / 100"
    using round_half_up_lower [of "a + b"] round_half_up_upper [of a] round_half_up_upper [of b]
    unfolding eq [symmetric] by linarith
  then have "of_int (- 2) < rat_of_int k" by simp
  then have l: "- 1 \<le> k" by (simp only: of_int_less_iff)
  have "\<bar>rat_of_int k\<bar> \<le> 1" using u l by (simp add: abs_le_iff)
  then show ?thesis unfolding eq by simp
qed

lemma decimal_4_2_fits: "\<bar>x\<bar> \<le> 99 \<Longrightarrow> decimal 4 2 x = Inr (round_numeric x 2)"
  using round_numeric_abs [of x] by (simp add: decimal_def Let_def)

lemma epoch_div_zero: "epoch_div_3600 0 = 0"
  by (simp add: epoch_div_3600_def extract_epoch_def round_numeric_def)

lemma session_expr_close:
  "\<bar>session_expr t_in t_out - raw_hours t_in t_out\<bar> \<le> 1 / (2 * 10 ^ 12)"
proof (cases "\<exists>i out. t_in = Some i \<and> t_out = Some out")
  case True
  then obtain i out where t: "t_in = Some i" "t_out = Some out" by blast
  have "session_expr t_in t_out = epoch_div_3600 (out - i)"
    and "raw_hours t_in t_out = of_int (out - i) / 3600000000"
    by (simp_all add: t session_expr_def raw_hours_def del: of_int_diff)
  then show ?thesis by (simp only: epoch_div_close)
next
  case False
  then have "session_expr t_in t_out = 0" and "raw_hours t_in t_out = 0"
    by (auto simp: session_expr_def raw_hours_def split: option.splits)
  then show ?thesis by simp
qed

lemma session_expr_abs:
  assumes "valid_time_opt t_in" and "valid_time_opt t_out"
  shows "\<bar>session_expr t_in t_out\<bar> \<le> 25"
proof -
  have "\<bar>raw_hours t_in t_out\<bar> \<le> 24" using assms by (rule raw_hours_abs)
  moreover have "\<bar>session_expr t_in t_out - raw_hours t_in t_out\<bar> \<le> 1 / 2000000000000"
    using session_expr_close [of t_in t_out] by simp
  ultimately show ?thesis by linarith
qed

lemma session_quotient:
  assumes "valid_order t_in t_out"
  shows "\<exists>d. 0 \<le> d \<and> raw_hours t_in t_out = of_int d / 3600000000
            \<and> session_expr t_in t_out = epoch_div_3600 d"
proof (cases "\<exists>i out. t_in = Some i \<and> t_out = Some out")
  case True
  then obtain i out where "t_in = Some i" and "t_out = Some out" by blast
  then have "0 \<le> out - i \<and> raw_hours t_in t_out = of_int (out - i) / 3600000000
            \<and> session_expr t_in t_out = epoch_div_3600 (out - i)"
    using assms by (simp add: valid_order_def raw_hours_def session_expr_def)
  then show ?thesis ..
next
  case False
  then have "session_expr t_in t_out = 0" and "raw_hours t_in t_out = 0"
    by (auto simp: session_expr_def raw_hours_def split: option.splits)
  then have "(0 :: int) \<le> 0 \<and> raw_hours t_in t_out = of_int 0 / 3600000000
            \<and> session_expr t_in t_out = epoch_div_3600 0"
    by (simp add: epoch_div_zero)
  then show ?thesis ..
qed

lemma session_expr_nonneg: "valid_order t_in t_out \<Longrightarrow> 0 \<le> session_expr t_in t_out"
  using session_quotient [of t_in t_out] epoch_div_nonneg(2) by auto

lemma session_round2:
  assumes "valid_order t_in t_out"
  shows "round_half_up (session_expr t_in t_out) 2 = round_half_up (raw_hours t_in t_out) 2"
proof -
  obtain d where d: "0 \<le> d" "raw_hours t_in t_out = of_int d / 3600000000"
    "session_expr t_in t_out = epoch_div_3600 d"
    using session_quotient [OF assms] by blast
  show ?thesis unfolding d(2,3) using d(1) by (rule epoch_div_round2)
qed

lemma session_hundredth:
  assumes "valid_order t_in t_out" and "raw_hours t_in t_out = of_int k / 100"
  shows "session_expr t_in t_out = of_int k / 100"
proof -
  obtain d where d: "0 \<le> d" "raw_hours t_in t_out = of_int d / 3600000000"
    "session_expr t_in t_out = epoch_div_3600 d"
    using session_quotient [OF assms(1)] by blast
  have "rat_of_int d / 3600000000 = of_int (2 * k) / 200"
    using d(2) assms(2) by simp
  then have "epoch_div_3600 d = of_int (2 * k) / 200"
    by (rule epoch_div_fixed [OF d(1)])
  then show ?thesis by (simp add: d(3))
qed

lemma generated_hours:
  assumes "valid_time_opt t_in" and "valid_time_opt t_out"
  shows "decimal 4 2 (session_expr t_in t_out) = Inr (round_numeric (session_expr t_in t_out) 2)"
proof -
  have "\<bar>session_expr t_in t_out\<bar> \<le> 25" using assms by (rule session_expr_abs)
  then have "\<bar>session_expr t_in t_out\<bar> \<le> 99" by linarith
  then show ?thesis by (rule decimal_4_2_fits)
qed

lemma generated_total:
  assumes "valid_times r"
  shows "total_hours_generated r
           = Inr (round_numeric (session_expr (am_time_in r) (am_time_out r)
                                 + session_expr (pm_time_in r) (pm_time_out r)) 2)"
proof -
  have "\<bar>session_expr (am_time_in r) (am_time_out r)\<bar> \<le> 25"
    and "\<bar>session_expr (pm_time_in r) (pm_time_out r)\<bar> \<le> 25"
    using assms by (simp_all add: valid_times_def session_expr_abs)
  then have "\<bar>session_expr (am_time_in r) (am_time_out r)
              + session_expr (pm_time_in r) (pm_time_out r)\<bar> \<le> 99"
    by linarith
  then show ?thesis by (simp add: total_hours_generated_def decimal_4_2_fits)
qed

lemma write_time_record_ok:
  assumes t: "valid_times r"
    and am: "valid_order (am_time_in r) (am_time_out r)"
    and pm: "valid_order (pm_time_in r) (pm_time_out r)"
  shows "write_time_record r =
     Inr (time_record_values.extend r (time_record.fields
       (round_half_up (raw_hours (am_time_in r) (am_time_out r)) 2)
       (round_half_up (raw_hours (pm_time_in r) (pm_time_out r)) 2)
       (round_half_up (session_expr (am_time_in r) (am_time_out r)
                       + session_expr (pm_time_in r) (pm_time_out r)) 2)))"
proof -
  let ?a = "session_expr (am_time_in r) (am_time_out r)"
  let ?p = "session_expr (pm_time_in r) (pm_time_out r)"
  have a0: "0 \<le> ?a" and p0: "0 \<le> ?p" using am pm by (simp_all add: session_expr_nonneg)
  have ga: "am_hours_generated r = Inr (round_half_up (raw_hours (am_time_in r) (am_time_out r)) 2)"
    using t a0 am
    by (simp add: am_hours_generated_def valid_times_def generated_hours round_numeric_nonneg
        session_round2)
  have gp: "pm_hours_generated r = Inr (round_half_up (raw_hours (pm_time_in r) (pm_time_out r)) 2)"
    using t p0 pm
    by (simp add: pm_hours_generated_def valid_times_def generated_hours round_numeric_nonneg
        session_round2)
  have "0 \<le> ?a + ?p" using a0 p0 by linarith
  then have gt: "total_hours_generated r = Inr (round_half_up (?a + ?p) 2)"
    using t by (simp add: generated_total round_numeric_nonneg)
  show ?thesis
    using am pm
    by (simp add: write_time_record_def ga gp gt chk_am_times_def chk_pm_times_def
        chk_times_valid_order)
qed

text \<open>
  With ten minutes in the morning and 1 h 2 min 18 s in the afternoon the raw sum is
  1.205 hours, halfway between two hundredths. The two quotients are
  0.16666666666666666667 and 1.0383333333333333, and the stored total is 1.20.
\<close>

lemma tie_day_total:
  "total_hours_generated tie_day = Inr (120 / 100)
   \<and> round_half_up (raw_hours (am_time_in tie_day) (am_time_out tie_day)
                     + raw_hours (pm_time_in tie_day) (pm_time_out tie_day)) 2 = 121 / 100"
  by code_simp

text \<open>
  C4. For a session with both endpoints present and the end after the start, the
  generated column \<^verbatim>\<open>am_hours\<close> holds the raw duration in hours rounded half up to two
  decimals; with an endpoint absent it holds 0. The same holds of \<^verbatim>\<open>pm_hours\<close>.
\<close>

theorem session_hours_rounded_half_up:
  assumes "valid_times r"
  shows "(\<forall>i out. am_time_in r = Some i \<and> am_time_out r = Some out \<and> i < out \<longrightarrow>
            am_hours_generated r = Inr (round_half_up (of_int (out - i) / 3600000000) 2))
       \<and> (am_time_in r = None \<or> am_time_out r = None \<longrightarrow> am_hours_generated r = Inr 0)
       \<and> (\<forall>i out. pm_time_in r = Some i \<and> pm_time_out r = Some out \<and> i < out \<longrightarrow>
            pm_hours_generated r = Inr (round_half_up (of_int (out - i) / 3600000000) 2))
       \<and> (pm_time_in r = None \<or> pm_time_out r = None \<longrightarrow> pm_hours_generated r = Inr 0)"
proof -
  have am: "am_hours_generated r
              = Inr (round_numeric (session_expr (am_time_in r) (am_time_out r)) 2)"
    using assms by (simp add: am_hours_generated_def valid_times_def generated_hours)
  have pm: "pm_hours_generated r
              = Inr (round_numeric (session_expr (pm_time_in r) (pm_time_out r)) 2)"
    using assms by (simp add: pm_hours_generated_def valid_times_def generated_hours)
  have present: "round_numeric (session_expr (Some i) (Some out)) 2
                   = round_half_up (of_int (out - i) / 3600000000) 2" if "i < out" for i out
  proof -
    have v: "valid_order (Some i) (Some out)" using that by (simp add: valid_order_def)
    then have "0 \<le> session_expr (Some i) (Some out)" by (rule session_expr_nonneg)
    then have "round_numeric (session_expr (Some i) (Some out)) 2
                 = round_half_up (session_expr (Some i) (Some out)) 2"
      by (rule round_numeric_nonneg)
    also have "\<dots> = round_half_up (raw_hours (Some i) (Some out)) 2"
      using v by (rule session_round2)
    finally show ?thesis by (simp add: raw_hours_def)
  qed
  have missing: "round_numeric (session_expr t_in t_out) 2 = 0"
    if "t_in = None \<or> t_out = None" for t_in t_out
    using that by (auto simp: session_expr_def round_numeric_def split: option.splits)
  show ?thesis
    unfolding am pm using present missing by auto
qed

theorem session_hours_rounded_half_up_witness:
  "valid_times am_only
   \<and> am_time_in am_only = Some (hms 8 0 0) \<and> am_time_out am_only = Some (hms 12 0 0)
   \<and> hms 8 0 0 < hms 12 0 0
   \<and> am_hours_generated am_only = Inr 4
   \<and> pm_time_in am_only = None
   \<and> pm_hours_generated am_only = Inr 0"
proof -
  have v: "valid_times am_only"
    by (simp add: am_only_def valid_times_def valid_time_opt_def valid_time_def hms_def)
  have r: "round_half_up (of_int (hms 12 0 0 - hms 8 0 0) / 3600000000) 2 = 4"
    by (simp add: round_half_up_def hms_def)
  show ?thesis
    using session_hours_rounded_half_up [OF v] v r
    by (simp add: am_only_def hms_def)
qed

text \<open>
  C1, as stated, fails: with two sessions of four hours and ten minutes each,
  \<^verbatim>\<open>am_hours\<close> and \<^verbatim>\<open>pm_hours\<close> are 4.17 each and \<^verbatim>\<open>total_hours\<close> is 8.33.
\<close>

theorem total_hours_not_sum_of_rounded:
  "valid_times two_long_sessions
   \<and> valid_order (am_time_in two_long_sessions) (am_time_out two_long_sessions)
   \<and> valid_order (pm_time_in two_long_sessions) (pm_time_out two_long_sessions)
   \<and> write_time_record two_long_sessions = Inr two_long_sessions_row
   \<and> total_hours two_long_sessions_row
       \<noteq> am_hours two_long_sessions_row + pm_hours two_long_sessions_row"
  by code_simp

text \<open>
  C1, amended. For a record in valid session order, \<^verbatim>\<open>total_hours\<close> is the sum of the
  two session quotients rounded half up to two decimals once, each quotient being the raw
  duration in hours as numeric division yields it, to twelve decimals or more: the sum of
  the quotients is within \<open>10\<^sup>-\<^sup>1\<^sup>2\<close> of the raw sum. So \<^verbatim>\<open>total_hours\<close> is the raw sum
  rounded half up to two decimals, except that it may be the hundredth below when the raw
  sum lies exactly halfway between two hundredths. It is within 0.01 of
  \<^verbatim>\<open>am_hours + pm_hours\<close>, and equal to it whenever one of the raw durations is a whole
  number of hundredths of an hour (an absent session has duration 0).
\<close>

theorem total_hours_rounds_session_sum:
  assumes "valid_times r"
    and "valid_order (am_time_in r) (am_time_out r)"
    and "valid_order (pm_time_in r) (pm_time_out r)"
  shows "\<exists>row. write_time_record r = Inr row
       \<and> am_hours row = round_half_up (raw_hours (am_time_in r) (am_time_out r)) 2
       \<and> pm_hours row = round_half_up (raw_hours (pm_time_in r) (pm_time_out r)) 2
       \<and> total_hours row = round_half_up (session_expr (am_time_in r) (am_time_out r)
                                          + session_expr (pm_time_in r) (pm_time_out r)) 2
       \<and> \<bar>session_expr (am_time_in r) (am_time_out r)
            + session_expr (pm_time_in r) (pm_time_out r)
            - (raw_hours (am_time_in r) (am_time_out r)
               + raw_hours (pm_time_in r) (pm_time_out r))\<bar> \<le> 1 / 10 ^ 12
       \<and> (total_hours row = round_half_up (raw_hours (am_time_in r) (am_time_out r)
                                           + raw_hours (pm_time_in r) (pm_time_out r)) 2
            \<or> total_hours row = round_half_up (raw_hours (am_time_in r) (am_time_out r)
                                           + raw_hours (pm_time_in r) (pm_time_out r)) 2
                                  - 1 / 100)
       \<and> ((\<forall>k. (raw_hours (am_time_in r) (am_time_out r)
                  + raw_hours (pm_time_in r) (pm_time_out r)) * 100 + 1 / 2 \<noteq> of_int k)
           \<longrightarrow> total_hours row = round_half_up (raw_hours (am_time_in r) (am_time_out r)
                                           + raw_hours (pm_time_in r) (pm_time_out r)) 2)
       \<and> \<bar>total_hours row - (am_hours row + pm_hours row)\<bar> \<le> 1 / 100
       \<and> ((\<exists>k. raw_hours (am_time_in r) (am_time_out r) = of_int k / 100)
            \<or> (\<exists>k. raw_hours (pm_time_in r) (pm_time_out r) = of_int k / 100)
           \<longrightarrow> total_hours row = am_hours row + pm_hours row)"
proof -
  let ?a = "raw_hours (am_time_in r) (am_time_out r)"
  let ?p = "raw_hours (pm_time_in r) (pm_time_out r)"
  let ?qa = "session_expr (am_time_in r) (am_time_out r)"
  let ?qp = "session_expr (pm_time_in r) (pm_time_out r)"
  let ?row = "time_record_values.extend r (time_record.fields
                (round_half_up ?a 2) (round_half_up ?p 2) (round_half_up (?qa + ?qp) 2))"
  have w: "write_time_record r = Inr ?row" using assms by (rule write_time_record_ok)
  have sel: "am_hours ?row = round_half_up ?a 2" "pm_hours ?row = round_half_up ?p 2"
    "total_hours ?row = round_half_up (?qa + ?qp) 2"
    by (simp_all add: time_record_values.defs time_record.defs)
  have ra: "round_half_up ?qa 2 = round_half_up ?a 2"
    and rp: "round_half_up ?qp 2 = round_half_up ?p 2"
    using assms(2,3) by (simp_all add: session_round2)
  have "\<bar>?qa - ?a\<bar> \<le> 1 / 2000000000000" and "\<bar>?qp - ?p\<bar> \<le> 1 / 2000000000000"
    using session_expr_close [of "am_time_in r" "am_time_out r"]
      session_expr_close [of "pm_time_in r" "pm_time_out r"] by simp_all
  then have "\<bar>?qa + ?qp - (?a + ?p)\<bar> \<le> 1 / 1000000000000" by linarith
  then have near: "\<bar>?qa + ?qp - (?a + ?p)\<bar> \<le> 1 / 10 ^ 12" by simp
  obtain da dp :: int where da: "?a = of_int da / 3600000000"
    and dp: "?p = of_int dp / 3600000000"
    using session_quotient [OF assms(2)] session_quotient [OF assms(3)] by blast
  have sum: "?a + ?p = of_int (da + dp) / 3600000000"
    by (simp add: da dp add_divide_distrib)
  have either: "total_hours ?row = round_half_up (?a + ?p) 2
            \<or> total_hours ?row = round_half_up (?a + ?p) 2 - 1 / 100"
    unfolding sel sum by (rule near_round(1)) (use near in \<open>simp only: sum\<close>)
  have no_tie: "total_hours ?row = round_half_up (?a + ?p) 2"
    if "\<forall>k. (?a + ?p) * 100 + 1 / 2 \<noteq> of_int k"
    unfolding sel sum
  proof (rule near_round(2))
    show "\<bar>?qa + ?qp - of_int (da + dp) / 3600000000\<bar> \<le> 1 / 10 ^ 12"
      using near by (simp only: sum)
    show "of_int (da + dp) / 3600000000 * 100 + 1 / 2 \<noteq> rat_of_int k" for k
      using that by (simp only: sum) blast
  qed
  have "\<bar>round_half_up (?qa + ?qp) 2 - (round_half_up ?qa 2 + round_half_up ?qp 2)\<bar>
          \<le> 1 / 100"
    by (rule round_half_up_sum_close)
  then have close: "\<bar>total_hours ?row - (am_hours ?row + pm_hours ?row)\<bar> \<le> 1 / 100"
    by (simp only: sel ra rp)
  have exact: "total_hours ?row = am_hours ?row + pm_hours ?row"
    if "(\<exists>k. ?a = of_int k / 100) \<or> (\<exists>k. ?p = of_int k / 100)"
    using that
  proof
    assume "\<exists>k. ?a = of_int k / 100"
    then obtain k where k: "?a = of_int k / 100" ..
    have q: "?qa = of_int k / 100" using assms(2) k by (rule session_hundredth)
    have "round_half_up (?qa + ?qp) 2 = of_int k / 100 + round_half_up ?qp 2"
      unfolding q by (rule round_half_up_add_hundredth)
    then show ?thesis
      unfolding sel by (simp only: rp k round_half_up_hundredth)
  next
    assume "\<exists>k. ?p = of_int k / 100"
    then obtain k where k: "?p = of_int k / 100" ..
    have q: "?qp = of_int k / 100" using assms(3) k by (rule session_hundredth)
    have "round_half_up (?qa + ?qp) 2 = round_half_up (of_int k / 100 + ?qa) 2"
      unfolding q by (simp only: add.commute)
    also have "\<dots> = of_int k / 100 + round_half_up ?qa 2"
      by (rule round_half_up_add_hundredth)
    finally show ?thesis
      unfolding sel by (simp only: ra k round_half_up_hundredth add.commute)
  qed
  show ?thesis
    using w sel(1,2,3) near either no_tie close exact by blast
qed

theorem total_hours_rounds_session_sum_witness:
  "valid_times full_day
   \<and> valid_order (am_time_in full_day) (am_time_out full_day)
   \<and> valid_order (pm_time_in full_day) (pm_time_out full_day)
   \<and> raw_hours (am_time_in full_day) (am_time_out full_day) = of_int 400 / 100
   \<and> (\<exists>row. write_time_record full_day = Inr row
         \<and> am_hours row = 4 \<and> pm_hours row = 4
         \<and> total_hours row = am_hours row + pm_hours row)"
proof -
  have v: "valid_times full_day"
    by (simp add: full_day_def valid_times_def valid_time_opt_def valid_time_def hms_def)
  have am: "valid_order (am_time_in full_day) (am_time_out full_day)"
    by (simp add: full_day_def valid_order_def hms_def)
  have pm: "valid_order (pm_time_in full_day) (pm_time_out full_day)"
    by (simp add: full_day_def valid_order_def hms_def)
  have a: "raw_hours (am_time_in full_day) (am_time_out full_day) = of_int 400 / 100"
    by (simp add: full_day_def raw_hours_def hms_def)
  have p: "raw_hours (pm_time_in full_day) (pm_time_out full_day) = 4"
    by (simp add: full_day_def raw_hours_def hms_def)
  have r: "round_half_up 4 2 = 4"
    by (simp add: round_half_up_def)
  from total_hours_rounds_session_sum [OF v am pm]
  obtain row where "write_time_record full_day = Inr row"
    and "am_hours row = round_half_up (raw_hours (am_time_in full_day) (am_time_out full_day)) 2"
    and "pm_hours row = round_half_up (raw_hours (pm_time_in full_day) (pm_time_out full_day)) 2"
    and "(\<exists>k. raw_hours (am_time_in full_day) (am_time_out full_day) = of_int k / 100)
            \<or> (\<exists>k. raw_hours (pm_time_in full_day) (pm_time_out full_day) = of_int k / 100)
           \<longrightarrow> total_hours row = am_hours row + pm_hours row"
    by blast
  then have "write_time_record full_day = Inr row \<and> am_hours row = 4 \<and> pm_hours row = 4
             \<and> total_hours row = am_hours row + pm_hours row"
    using r a by (auto simp: p)
  then show ?thesis using v am pm a by blast
qed

text \<open>
  C6. A record with a session out of order (both endpoints present, the end not after
  the start) is not stored: writing it fails with the violation of \<^verbatim>\<open>chk_am_times\<close> or
  \<^verbatim>\<open>chk_pm_times\<close>, the error that the specification names NegativeDuration.
\<close>

theorem invalid_order_rejected:
  assumes "valid_times r"
    and "\<not> valid_order (am_time_in r) (am_time_out r)
         \<or> \<not> valid_order (pm_time_in r) (pm_time_out r)"
  shows "write_time_record r =
     Inl (check_violation (if \<not> valid_order (am_time_in r) (am_time_out r)
                           then ''chk_am_times'' else ''chk_pm_times''))"
proof -
  have ga: "am_hours_generated r
              = Inr (round_numeric (session_expr (am_time_in r) (am_time_out r)) 2)"
    using assms(1) by (simp add: am_hours_generated_def valid_times_def generated_hours)
  have gp: "pm_hours_generated r
              = Inr (round_numeric (session_expr (pm_time_in r) (pm_time_out r)) 2)"
    using assms(1) by (simp add: pm_hours_generated_def valid_times_def generated_hours)
  have gt: "total_hours_generated r
              = Inr (round_numeric (session_expr (am_time_in r) (am_time_out r)
                                    + session_expr (pm_time_in r) (pm_time_out r)) 2)"
    using assms(1) by (rule generated_total)
  show ?thesis
    using assms(2)
    by (simp add: write_time_record_def ga gp gt chk_am_times_def chk_pm_times_def
        chk_times_valid_order)
qed

theorem invalid_order_rejected_witness:
  "valid_times reversed_am
   \<and> \<not> valid_order (am_time_in reversed_am) (am_time_out reversed_am)
   \<and> write_time_record reversed_am = Inl (check_violation ''chk_am_times'')"
proof -
  have v: "valid_times reversed_am"
    by (simp add: reversed_am_def valid_times_def valid_time_opt_def valid_time_def hms_def)
  have bad: "\<not> valid_order (am_time_in reversed_am) (am_time_out reversed_am)"
    by (simp add: reversed_am_def valid_order_def hms_def)
  then have "\<not> valid_order (am_time_in reversed_am) (am_time_out reversed_am)
         \<or> \<not> valid_order (pm_time_in reversed_am) (pm_time_out reversed_am)" ..
  from invalid_order_rejected [OF v this] bad v show ?thesis by simp
qed

subsection \<open>Weekly summary\<close>

lemma map_filter_Some: "List.map_filter (\<lambda>x. x) (map (\<lambda>r. Some (f r)) rows) = map f rows"
  by (induction rows) simp_all

lemma sum_of_present: "coalesce (sql_sum (map (\<lambda>r. Some (f r)) rows)) 0 = sum_list (map f rows)"
  by (cases rows) (simp_all add: sql_sum_def coalesce_def map_filter_Some)

lemma least_min: "least a b = min a b"
  by (simp add: least_def min_def)

text \<open>
  C2. For a trainee found by its id, the week's total is the sum of \<^verbatim>\<open>total_hours\<close>
  over the trainee's records of the week; \<^verbatim>\<open>billable_hours\<close> is the smaller of the
  total and \<^verbatim>\<open>max_weekly_hours\<close> for a paid or unpaid intern and the total for an OJT
  trainee; \<^verbatim>\<open>gross_pay\<close> is \<^verbatim>\<open>billable_hours\<close> times the hourly rate for a paid intern
  and 0 for the other two types.
\<close>

theorem weekly_summary_billable_and_pay:
  assumes "find (\<lambda>t. t_id t = p) (trainees db) = Some t"
  shows "let s = calculate_weekly_summary db p w;
             total = sum_list (map total_hours (week_records db p w))
         in total_hours_worked s = total
          \<and> (t_trainee_type t = paid_intern \<or> t_trainee_type t = unpaid_intern \<longrightarrow>
               billable_hours s = min total (of_int (t_max_weekly_hours t)))
          \<and> (t_trainee_type t = ojt \<longrightarrow> billable_hours s = total)
          \<and> (t_trainee_type t = paid_intern \<longrightarrow>
               (\<forall>rate. t_hourly_rate t = Some rate \<longrightarrow>
                  gross_pay s = Some (billable_hours s * rate)))
          \<and> (t_trainee_type t = unpaid_intern \<or> t_trainee_type t = ojt \<longrightarrow>
               gross_pay s = Some 0)"
  using assms
  by (simp add: calculate_weekly_summary_def Let_def sum_of_present least_min)

theorem weekly_summary_billable_and_pay_witness:
  "find (\<lambda>t. t_id t = 101) (trainees juan_week) = Some juan
   \<and> t_trainee_type juan = paid_intern \<and> t_hourly_rate juan = Some (125 / 2)
   \<and> total_hours_worked (calculate_weekly_summary juan_week 101 (ymd 2024 1 15)) = 20
   \<and> billable_hours (calculate_weekly_summary juan_week 101 (ymd 2024 1 15)) = 16
   \<and> gross_pay (calculate_weekly_summary juan_week 101 (ymd 2024 1 15)) = Some 1000"
proof -
  let ?s = "calculate_weekly_summary juan_week 101 (ymd 2024 1 15)"
  have f: "find (\<lambda>t. t_id t = 101) (trainees juan_week) = Some juan"
    by (simp add: juan_week_def juan_def)
  have t: "t_trainee_type juan = paid_intern" "t_hourly_rate juan = Some (125 / 2)"
    by (simp_all add: juan_def)
  have m: "t_max_weekly_hours juan = 16"
    by (simp add: juan_def)
  have w: "sum_list (map total_hours (week_records juan_week 101 (ymd 2024 1 15))) = 20"
    by (simp add: week_records_def juan_week_def morning_of_def ymd_def)
  note h = weekly_summary_billable_and_pay [OF f, of "ymd 2024 1 15", unfolded Let_def w m]
  from h have total: "total_hours_worked ?s = 20" by blast
  from h t have "billable_hours ?s = min 20 (of_int 16)" by blast
  then have billable: "billable_hours ?s = 16" by simp
  from h t have "gross_pay ?s = Some (billable_hours ?s * (125 / 2))" by blast
  then have pay: "gross_pay ?s = Some 1000" by (simp add: billable)
  show ?thesis using f t total billable pay by blast
qed

text \<open>
  C10. Whatever the trainee and the records, the billable hours of a weekly summary never
  exceed the hours worked.
\<close>

theorem weekly_billable_le_worked:
  "billable_hours (calculate_weekly_summary db p w)
     \<le> total_hours_worked (calculate_weekly_summary db p w)"
  by (simp add: calculate_weekly_summary_def Let_def least_def split: option.splits)

theorem weekly_billable_le_worked_witness:
  "billable_hours (calculate_weekly_summary juan_week 101 19737) = 16
   \<and> total_hours_worked (calculate_weekly_summary juan_week 101 19737) = 20
   \<and> billable_hours (calculate_weekly_summary juan_week 101 19737)
        \<le> total_hours_worked (calculate_weekly_summary juan_week 101 19737)"
proof -
  have "billable_hours (calculate_weekly_summary juan_week 101 19737) = 16"
    and "total_hours_worked (calculate_weekly_summary juan_week 101 19737) = 20"
    by code_simp+
  then show ?thesis
    using weekly_billable_le_worked [of juan_week 101 19737] by simp
qed

subsection \<open>OJT progress\<close>

lemma concat_map_only:
  assumes "distinct (map f xs)" and "x \<in> set xs"
    and "\<And>y. y \<in> set xs \<Longrightarrow> f y \<noteq> f x \<Longrightarrow> H y = []"
  shows "concat (map H xs) = H x"
  using assms
proof (induction xs)
  case Nil
  then show ?case by simp
next
  case (Cons a xs)
  show ?case
  proof (cases "x = a")
    case True
    have "H y = []" if "y \<in> set xs" for y
    proof -
      have "f a \<notin> f ` set xs" using Cons.prems(1) by simp
      then have "f y \<noteq> f a" using that by (metis imageI)
      then show ?thesis using Cons.prems(3) [of y] that True by simp
    qed
    then have "concat (map H xs) = []" by simp
    then show ?thesis using True by simp
  next
    case False
    then have x: "x \<in> set xs" using Cons.prems(2) by simp
    moreover have "f a \<notin> f ` set xs" using Cons.prems(1) by simp
    ultimately have "f a \<noteq> f x" by (metis imageI)
    then have "H a = []" using Cons.prems(3) [of a] by simp
    moreover have "concat (map H xs) = H x"
      using Cons.IH Cons.prems(1,3) x by simp
    ultimately show ?thesis by simp
  qed
qed

lemma filter_key_only:
  assumes "distinct (map f xs)" and "x \<in> set xs"
  shows "filter (\<lambda>y. f x = f y) xs = [x]"
proof -
  have "filter P xs = concat (map (\<lambda>y. if P y then [y] else []) xs)" for P
    by (induction xs) simp_all
  then have "filter (\<lambda>y. f x = f y) xs = concat (map (\<lambda>y. if f x = f y then [y] else []) xs)" .
  also have "\<dots> = (if f x = f x then [x] else [])"
    using assms by (rule concat_map_only) simp
  finally show ?thesis by simp
qed

lemma left_join_first: "row \<in> set (left_join_time_records db t u) \<Longrightarrow> fst row = t"
  by (auto simp: left_join_time_records_def Let_def split: if_splits)

lemma left_join_not_empty: "left_join_time_records db t u \<noteq> []"
  by (simp add: left_join_time_records_def Let_def)

lemma left_join_key:
  "row \<in> set (left_join_time_records db t u) \<Longrightarrow>
     ojt_group_key row = (t_id t, u_first_name u, u_last_name u, t_total_required_hours t)"
  by (auto simp: left_join_time_records_def ojt_group_key_def Let_def split: if_splits)

lemma left_join_sum:
  "coalesce (sql_sum (map (\<lambda>(t, u, tr). map_option total_hours tr)
                          (left_join_time_records db t u))) 0
     = rendered_hours db (t_id t)"
proof (cases "filter (\<lambda>tr. t_id t = tr_trainee_id tr) (time_records db) = []")
  case True
  then show ?thesis
    by (simp add: left_join_time_records_def rendered_hours_def sql_sum_def coalesce_def)
next
  case False
  then show ?thesis
    by (simp add: left_join_time_records_def rendered_hours_def comp_def sum_of_present)
qed

lemma ojt_rows_of_trainee:
  assumes "distinct (map t_id (trainees db))" and "distinct (map u_id (users db))"
    and "t \<in> set (trainees db)" and "u \<in> set (users db)" and "t_user_id t = u_id u"
    and "t_trainee_type t = ojt" and "t_status t = Some active"
  shows "filter (ojt_where (Some (t_id t))) (ojt_from db) = left_join_time_records db t u"
proof -
  let ?P = "ojt_where (Some (t_id t))"
  let ?G = "\<lambda>t'. concat (map (left_join_time_records db t')
                              (filter (\<lambda>u. t_user_id t' = u_id u) (users db)))"
  have first: "fst row = t'" if "row \<in> set (?G t')" for row t'
    using that by (auto dest: left_join_first)
  have other: "filter ?P (?G t') = []" if "t_id t' \<noteq> t_id t" for t'
  proof -
    have "\<not> ?P row" if "row \<in> set (?G t')" for row
      using first [OF that] \<open>t_id t' \<noteq> t_id t\<close> by (cases row) (simp add: ojt_where_def)
    then show ?thesis by (simp only: filter_empty_conv) blast
  qed
  have "filter (\<lambda>u'. t_user_id t = u_id u') (users db) = [u]"
    using filter_key_only [OF assms(2,4)] assms(5) by simp
  then have own: "?G t = left_join_time_records db t u" by simp
  have "?P row" if "row \<in> set (left_join_time_records db t u)" for row
    using left_join_first [OF that] assms(6,7) by (cases row) (simp add: ojt_where_def)
  then have keep: "filter ?P (left_join_time_records db t u) = left_join_time_records db t u"
    by (simp only: filter_id_conv) blast
  have "filter ?P (ojt_from db) = concat (map (\<lambda>t'. filter ?P (?G t')) (trainees db))"
    by (simp add: ojt_from_def filter_concat comp_def)
  also have "\<dots> = filter ?P (?G t)"
    using assms(1,3) by (rule concat_map_only) (rule other)
  finally show ?thesis by (simp only: own keep)
qed

lemma remdups_constant:
  assumes "xs \<noteq> []" and "\<And>x. x \<in> set xs \<Longrightarrow> x = k"
  shows "remdups xs = [k]"
  using assms
proof (induction xs)
  case Nil
  then show ?case by simp
next
  case (Cons a xs)
  then show ?case by (cases xs) auto
qed

lemma group_by_one_key:
  assumes "rows \<noteq> []" and "\<And>r. r \<in> set rows \<Longrightarrow> key r = k"
  shows "group_by key rows = [(k, rows)]"
proof -
  have "remdups (map key rows) = [k]"
    by (rule remdups_constant) (use assms in auto)
  moreover have "filter (\<lambda>r. key r = k) rows = rows" using assms(2) by (simp add: filter_id_conv)
  ultimately show ?thesis by (simp add: group_by_def)
qed

lemma get_ojt_progress_single:
  assumes "distinct (map t_id (trainees db))" and "distinct (map u_id (users db))"
    and "t \<in> set (trainees db)" and "u \<in> set (users db)" and "t_user_id t = u_id u"
    and "t_trainee_type t = ojt" and "t_status t = Some active"
  shows "get_ojt_progress db (Some (t_id t)) =
     (case numeric_div (rendered_hours db (t_id t)) (t_total_required_hours t) of
        Inl e \<Rightarrow> Inl e
      | Inr ratio \<Rightarrow>
          Inr [\<lparr> trainee_id = t_id t, first_name = u_first_name u, last_name = u_last_name u,
                 total_required_hours = t_total_required_hours t,
                 hours_rendered = rendered_hours db (t_id t),
                 remaining_hours =
                   map_option (\<lambda>n. of_int n - rendered_hours db (t_id t))
                     (t_total_required_hours t),
                 completion_percentage =
                   map_option (\<lambda>q. round_numeric (q * 100) 2) ratio \<rparr>])"
proof -
  let ?rows = "left_join_time_records db t u"
  let ?k = "(t_id t, u_first_name u, u_last_name u, t_total_required_hours t)"
  have "group_by ojt_group_key ?rows = [(?k, ?rows)]"
    using left_join_not_empty by (rule group_by_one_key) (rule left_join_key)
  then have "get_ojt_progress db (Some (t_id t)) = all_rows [ojt_select (?k, ?rows)]"
    by (simp add: get_ojt_progress_def ojt_rows_of_trainee [OF assms])
  then show ?thesis
    by (simp add: ojt_select_def Let_def left_join_sum split: sum.splits)
qed

lemma round_numeric_hundred: "round_numeric 100 2 = 100"
  by (simp add: round_numeric_def)

text \<open>
  C3. For an active OJT trainee whose required hours are positive, the query for that
  trainee returns one row: \<^verbatim>\<open>hours_rendered\<close> is the sum of \<^verbatim>\<open>total_hours\<close> over the
  trainee's records, \<^verbatim>\<open>remaining_hours\<close> is the required hours minus the rendered ones,
  not clamped, and \<^verbatim>\<open>completion_percentage\<close> is rendered over required times 100,
  rounded to two decimals; it is exactly 100 when the rendered hours equal the required
  ones. The primary keys of \<^verbatim>\<open>trainees\<close> and \<^verbatim>\<open>users\<close> are unique, and the trainee's
  user exists.
\<close>

theorem ojt_progress_of_active_trainee:
  assumes "distinct (map t_id (trainees db))" and "distinct (map u_id (users db))"
    and "t \<in> set (trainees db)" and "u \<in> set (users db)" and "t_user_id t = u_id u"
    and "t_trainee_type t = ojt" and "t_status t = Some active"
    and "t_total_required_hours t = Some n" and "0 < n"
  shows "get_ojt_progress db (Some (t_id t)) =
           Inr [\<lparr> trainee_id = t_id t, first_name = u_first_name u, last_name = u_last_name u,
                  total_required_hours = Some n,
                  hours_rendered = rendered_hours db (t_id t),
                  remaining_hours = Some (of_int n - rendered_hours db (t_id t)),
                  completion_percentage =
                    Some (round_numeric (rendered_hours db (t_id t) / of_int n * 100) 2) \<rparr>]
       \<and> (rendered_hours db (t_id t) = of_int n \<longrightarrow>
            round_numeric (rendered_hours db (t_id t) / of_int n * 100) 2 = 100)
       \<and> (0 \<le> rendered_hours db (t_id t) \<longrightarrow>
            round_numeric (rendered_hours db (t_id t) / of_int n * 100) 2
              = round_half_up (rendered_hours db (t_id t) / of_int n * 100) 2)"
proof -
  have row: "get_ojt_progress db (Some (t_id t)) =
           Inr [\<lparr> trainee_id = t_id t, first_name = u_first_name u, last_name = u_last_name u,
                  total_required_hours = Some n,
                  hours_rendered = rendered_hours db (t_id t),
                  remaining_hours = Some (of_int n - rendered_hours db (t_id t)),
                  completion_percentage =
                    Some (round_numeric (rendered_hours db (t_id t) / of_int n * 100) 2) \<rparr>]"
    using assms(8,9) by (simp add: get_ojt_progress_single [OF assms(1-7)] numeric_div_def)
  have full: "round_numeric (rendered_hours db (t_id t) / of_int n * 100) 2 = 100"
    if "rendered_hours db (t_id t) = of_int n"
    using that assms(9) by (simp add: round_numeric_hundred)
  have half_up: "round_numeric (rendered_hours db (t_id t) / of_int n * 100) 2
              = round_half_up (rendered_hours db (t_id t) / of_int n * 100) 2"
    if "0 \<le> rendered_hours db (t_id t)"
  proof -
    have "0 \<le> rendered_hours db (t_id t) / of_int n * 100" using that assms(9) by simp
    then show ?thesis by (rule round_numeric_nonneg)
  qed
  show ?thesis using row full half_up by blast
qed

theorem ojt_progress_of_active_trainee_witness:
  "distinct (map t_id (trainees ojt_db)) \<and> distinct (map u_id (users ojt_db))
   \<and> maria \<in> set (trainees ojt_db) \<and> maria_user \<in> set (users ojt_db)
   \<and> t_user_id maria = u_id maria_user
   \<and> t_trainee_type maria = ojt \<and> t_status maria = Some active
   \<and> t_total_required_hours maria = Some 500 \<and> (0 :: int) < 500
   \<and> get_ojt_progress ojt_db (Some 102) =
        Inr [\<lparr> trainee_id = 102, first_name = ''Maria'', last_name = ''Santos'',
               total_required_hours = Some 500, hours_rendered = 16,
               remaining_hours = Some 484, completion_percentage = Some (16 / 5) \<rparr>]"
proof -
  have pk: "distinct (map t_id (trainees ojt_db))" "distinct (map u_id (users ojt_db))"
    by (simp_all add: ojt_db_def juan_def maria_def maria_user_def)
  have mem: "maria \<in> set (trainees ojt_db)" "maria_user \<in> set (users ojt_db)"
    by (simp_all add: ojt_db_def)
  have cfg: "t_user_id maria = u_id maria_user" "t_trainee_type maria = ojt"
    "t_status maria = Some active" "t_total_required_hours maria = Some 500"
    by (simp_all add: maria_def maria_user_def)
  have id: "t_id maria = 102" "u_first_name maria_user = ''Maria''"
    "u_last_name maria_user = ''Santos''"
    by (simp_all add: maria_def maria_user_def)
  have h: "rendered_hours ojt_db 102 = 16"
    by (simp add: rendered_hours_def ojt_db_def morning_of_def full_day_of_def)
  have r: "round_numeric (16 / 5) 2 = 16 / 5"
    by (simp add: round_numeric_def)
  have "get_ojt_progress ojt_db (Some 102) =
        Inr [\<lparr> trainee_id = 102, first_name = ''Maria'', last_name = ''Santos'',
               total_required_hours = Some 500, hours_rendered = 16,
               remaining_hours = Some 484, completion_percentage = Some (16 / 5) \<rparr>]"
    using ojt_progress_of_active_trainee [OF pk mem cfg]
    by (simp add: id h r)
  then show ?thesis using pk mem cfg by simp
qed

text \<open>
  C5, as stated, fails: for a trainee without required hours the query raises no error;
  it returns a row whose remaining hours and completion percentage are NULL.
\<close>

theorem ojt_progress_missing_required_no_error:
  "t_total_required_hours (maria\<lparr>t_total_required_hours := None\<rparr>) = None
   \<and> get_ojt_progress (corrupt_db None) (Some 102) = Inr [unconfigured_progress]"
  by code_simp

text \<open>
  C5, amended. The query has no guard on the configuration. With required hours of zero
  it fails with \<^verbatim>\<open>division_by_zero\<close>, and no row is returned. With required hours
  missing it returns the row with \<^verbatim>\<open>remaining_hours\<close> and \<^verbatim>\<open>completion_percentage\<close>
  NULL. With negative required hours it returns the row computed as for a valid trainee.
\<close>

theorem ojt_progress_without_guard:
  assumes "distinct (map t_id (trainees db))" and "distinct (map u_id (users db))"
    and "t \<in> set (trainees db)" and "u \<in> set (users db)" and "t_user_id t = u_id u"
    and "t_trainee_type t = ojt" and "t_status t = Some active"
  shows "(t_total_required_hours t = Some 0 \<longrightarrow>
            get_ojt_progress db (Some (t_id t)) = Inl division_by_zero)
       \<and> (t_total_required_hours t = None \<longrightarrow>
            get_ojt_progress db (Some (t_id t)) =
              Inr [\<lparr> trainee_id = t_id t, first_name = u_first_name u,
                     last_name = u_last_name u, total_required_hours = None,
                     hours_rendered = rendered_hours db (t_id t),
                     remaining_hours = None, completion_percentage = None \<rparr>])
       \<and> (\<forall>n. t_total_required_hours t = Some n \<and> n < 0 \<longrightarrow>
            get_ojt_progress db (Some (t_id t)) =
              Inr [\<lparr> trainee_id = t_id t, first_name = u_first_name u,
                     last_name = u_last_name u, total_required_hours = Some n,
                     hours_rendered = rendered_hours db (t_id t),
                     remaining_hours = Some (of_int n - rendered_hours db (t_id t)),
                     completion_percentage =
                       Some (round_numeric (rendered_hours db (t_id t) / of_int n * 100) 2) \<rparr>])"
  by (simp add: get_ojt_progress_single [OF assms] numeric_div_def)

theorem ojt_progress_without_guard_witness:
  "distinct (map t_id (trainees (corrupt_db (Some 0))))
   \<and> distinct (map u_id (users (corrupt_db (Some 0))))
   \<and> maria\<lparr>t_total_required_hours := Some 0\<rparr> \<in> set (trainees (corrupt_db (Some 0)))
   \<and> maria_user \<in> set (users (corrupt_db (Some 0)))
   \<and> t_user_id (maria\<lparr>t_total_required_hours := Some 0\<rparr>) = u_id maria_user
   \<and> t_trainee_type (maria\<lparr>t_total_required_hours := Some 0\<rparr>) = ojt
   \<and> t_status (maria\<lparr>t_total_required_hours := Some 0\<rparr>) = Some active
   \<and> t_total_required_hours (maria\<lparr>t_total_required_hours := Some 0\<rparr>) = Some 0
   \<and> get_ojt_progress (corrupt_db (Some 0)) (Some 102) = Inl division_by_zero"
proof -
  let ?t = "maria\<lparr>t_total_required_hours := Some 0\<rparr>"
  let ?db = "corrupt_db (Some 0)"
  have pk: "distinct (map t_id (trainees ?db))" "distinct (map u_id (users ?db))"
    by (simp_all add: corrupt_db_def)
  have mem: "?t \<in> set (trainees ?db)" "maria_user \<in> set (users ?db)"
    by (simp_all add: corrupt_db_def)
  have cfg: "t_user_id ?t = u_id maria_user" "t_trainee_type ?t = ojt"
    "t_status ?t = Some active"
    by (simp_all add: maria_def maria_user_def)
  have z: "t_total_required_hours ?t = Some 0" by simp
  have id: "t_id ?t = 102" by (simp add: maria_def)
  have "get_ojt_progress ?db (Some 102) = Inl division_by_zero"
    using ojt_progress_without_guard [OF pk mem cfg] z by (simp add: id)
  then show ?thesis using pk mem cfg z by simp
qed

subsection \<open>Validation of a time record form\<close>

lemma session_date_le: "session_date c a \<le> session_date c b \<longleftrightarrow> a \<le> b"
  by (simp add: session_date_def date_local_def)

lemma future_issue_iff:
  "start_of_today c < date_utc d \<longleftrightarrow> local_day c * 1440 - tz_offset c < d * 1440"
proof -
  have "start_of_today c = (local_day c * 1440 - tz_offset c) * 60000"
    by (simp add: start_of_today_def date_local_def)
  moreover have "date_utc d = (d * 1440) * 60000"
    by (simp add: date_utc_def)
  moreover have "(0 :: int) < 60000" by simp
  ultimately show ?thesis by (simp only: mult_less_cancel_right_pos)
qed

lemma map_filter_append:
  "List.map_filter f (xs @ ys) = List.map_filter f xs @ List.map_filter f ys"
  by (simp add: List.map_filter_def)

lemma reported_custom:
  "set (List.map_filter rule_of_issue [custom ''am_time_out'' m]) = {InvalidSessionOrder_am}"
  "set (List.map_filter rule_of_issue [custom ''pm_time_out'' m]) = {InvalidSessionOrder_pm}"
  "set (List.map_filter rule_of_issue [custom ''pm_time_in'' m]) = {SessionOverlap}"
  "set (List.map_filter rule_of_issue [custom ''status'' m]) = {IncompleteSessionForPresent}"
  "set (List.map_filter rule_of_issue [custom ''date'' m]) = {FutureDateNotAllowed}"
  by simp_all

lemma reported_order:
  "set (List.map_filter rule_of_issue
     (case t_in of
        None \<Rightarrow> []
      | Some i \<Rightarrow>
          (case t_out of
             None \<Rightarrow> []
           | Some out \<Rightarrow> if session_date c out \<le> session_date c i then [x] else [])))
   = (if after t_out t_in then {} else set (List.map_filter rule_of_issue [x]))"
  by (simp add: session_date_le after_def split: option.splits)

lemma reported_if:
  "set (List.map_filter rule_of_issue (if b then [x] else []))
   = (if b then set (List.map_filter rule_of_issue [x]) else {})"
  by simp

lemma incomplete_iff:
  "(s = present \<and> (a = None \<or> b = None) \<and> (c = None \<or> d = None))
   = (s = present \<and> \<not> complete_session a b \<and> \<not> complete_session c d)"
  by (simp add: complete_session_def)

lemma validateTimeRecord_eq:
  "validateTimeRecord c data =
     (if after (f_am_time_out data) (f_am_time_in data) then {} else {InvalidSessionOrder_am})
     \<union> (if after (f_pm_time_out data) (f_pm_time_in data) then {} else {InvalidSessionOrder_pm})
     \<union> (if after (f_pm_time_in data) (f_am_time_out data) then {} else {SessionOverlap})
     \<union> (if f_status data = present
             \<and> \<not> complete_session (f_am_time_in data) (f_am_time_out data)
             \<and> \<not> complete_session (f_pm_time_in data) (f_pm_time_out data)
          then {IncompleteSessionForPresent} else {})
     \<union> (if start_of_today c < date_utc (f_date data) then {FutureDateNotAllowed} else {})"
  unfolding validateTimeRecord_def timeRecordSchema_superRefine_def map_filter_append set_append
    reported_order reported_if reported_custom incomplete_iff
  by (simp only: Un_assoc)


text \<open>
  The first four rules are reported exactly when they are violated, whatever the clock.
\<close>

lemma session_rules_exact:
  "validateTimeRecord c data - {FutureDateNotAllowed}
     = violated_rules today data - {FutureDateNotAllowed}"
  by (auto simp: validateTimeRecord_eq violated_rules_def split: if_splits)

text \<open>
  In a time zone at or west of Greenwich the date rule is exact too, and the validator
  returns the set of violated rules. A date after today is rejected in every time zone.
\<close>

lemma future_date_exact_west:
  assumes "- 1440 < tz_offset c" and "tz_offset c \<le> 0"
  shows "FutureDateNotAllowed \<in> validateTimeRecord c data \<longleftrightarrow> local_day c < f_date data"
  using assms by (auto simp: validateTimeRecord_eq future_issue_iff split: if_splits)

lemma validateTimeRecord_west:
  assumes "- 1440 < tz_offset c" and "tz_offset c \<le> 0"
  shows "validateTimeRecord c data = violated_rules (local_day c) data"
proof -
  have "start_of_today c < date_utc (f_date data) \<longleftrightarrow> \<not> f_date data \<le> local_day c"
    using assms by (auto simp: future_issue_iff)
  then show ?thesis by (simp add: validateTimeRecord_eq violated_rules_def)
qed

lemma tomorrow_rejected:
  assumes "- 1440 < tz_offset c" and "local_day c < f_date data"
  shows "FutureDateNotAllowed \<in> validateTimeRecord c data"
  using assms by (auto simp: validateTimeRecord_eq future_issue_iff)

text \<open>East of Greenwich a record dated today is reported as a future date.\<close>

lemma today_rejected_east:
  assumes "0 < tz_offset c" and "f_date data = local_day c"
  shows "FutureDateNotAllowed \<in> validateTimeRecord c data"
  using assms by (auto simp: validateTimeRecord_eq future_issue_iff)

lemma manila_today: "local_day manila_morning = ymd 2024 1 15"
  by (simp add: local_day_def manila_morning_def ymd_def)

text \<open>
  C7 at the failing input. In Manila, a record of today with a complete morning session
  violates none of the five rules, and the validator does not return the empty set.
\<close>

theorem valid_record_of_today_not_empty:
  "violated_rules (local_day manila_morning) todays_record = {}
   \<and> validateTimeRecord manila_morning todays_record = {FutureDateNotAllowed}"
proof -
  have d: "f_date todays_record = local_day manila_morning"
    by (simp add: manila_today todays_record_def)
  have "0 < tz_offset manila_morning" by (simp add: manila_morning_def)
  then have "start_of_today manila_morning < date_utc (f_date todays_record)"
    by (simp add: future_issue_iff d)
  then have "validateTimeRecord manila_morning todays_record = {FutureDateNotAllowed}"
    by (simp add: validateTimeRecord_eq)
       (simp add: todays_record_def after_def complete_session_def hm_def)
  moreover have "violated_rules (local_day manila_morning) todays_record = {}"
    by (simp add: violated_rules_def d [symmetric])
       (simp add: todays_record_def after_def complete_session_def hm_def)
  ultimately show ?thesis by simp
qed

text \<open>
  C8 at the failing input. In Manila at 10:00 on 2024-01-15, the schema answers a record
  dated 2024-01-15 with the issue ``Cannot enter future dates''.
\<close>

theorem record_of_today_reported_as_future:
  "local_day manila_morning = ymd 2024 1 15
   \<and> f_date todays_record = ymd 2024 1 15
   \<and> timeRecordSchema manila_morning todays_record
       = [custom ''date'' ''Cannot enter future dates'']"
proof -
  have d: "f_date todays_record = ymd 2024 1 15"
    by (simp add: todays_record_def)
  have "0 < tz_offset manila_morning" by (simp add: manila_morning_def)
  then have late: "start_of_today manila_morning < date_utc (f_date todays_record)"
    by (simp add: future_issue_iff d manila_today)
  have "timeRecordSchema manila_morning todays_record
       = [custom ''date'' ''Cannot enter future dates'']"
    using late
    by (simp add: timeRecordSchema_def timeRecordSchema_superRefine_def)
       (simp add: todays_record_def hm_def session_date_le)
  then show ?thesis by (simp add: manila_today d)
qed

subsection \<open>Validation of a trainee form\<close>

text \<open>
  A paid intern's form is accepted exactly when the hourly rate is present and strictly
  positive and the other fields pass their checks.
\<close>

lemma paid_intern_accepted_iff:
  assumes "tf_trainee_type data = paid_intern"
  shows "accepted data \<longleftrightarrow>
           (\<exists>v. tf_hourly_rate data = Some v \<and> 0 < v)
         \<and> tf_user_id data \<noteq> [] \<and> tf_company_id data \<noteq> []
         \<and> 1 \<le> tf_max_weekly_hours data
         \<and> (case tf_total_required_hours data of None \<Rightarrow> True | Some v \<Rightarrow> 1 \<le> v)
         \<and> (case tf_end_date data of None \<Rightarrow> True | Some e \<Rightarrow> tf_start_date data < e)"
  using assms
  by (auto simp: accepted_def traineeSchema_def traineeSchema_fields_def
      traineeSchema_superRefine_def js_not_def date_utc_def split: option.splits)

text \<open>
  C9 at the failing input. A paid intern with an hourly rate of 0 passes the field check
  \<^verbatim>\<open>min(0)\<close>, and the refinement then answers ``Hourly rate is required for paid
  interns'': the form is not accepted.
\<close>

theorem zero_rate_intern_rejected:
  "traineeSchema_fields zero_rate_intern = []
   \<and> traineeSchema zero_rate_intern
       = [custom ''hourly_rate'' ''Hourly rate is required for paid interns'']
   \<and> \<not> accepted zero_rate_intern"
  by (simp add: accepted_def traineeSchema_def traineeSchema_fields_def
      traineeSchema_superRefine_def js_not_def zero_rate_intern_def)

end
